theory Spec2Isabelle
  imports Complex_Main
begin

section \<open>The graph lottery ticket example script\<close>

text \<open>
  A shallow embedding of \<^verbatim>\<open>examples/contrib/graph_lottery_ticket.py\<close>. The script is glue
  over an external framework (torch, torch_geometric, argparse, tqdm). Every call into the
  framework is an operation of an environment record that the script's functions take as
  an argument; an operation that can raise returns \<open>'e + 'a\<close>, with \<open>Inl\<close> the exception.
  Python floats that the script only stores, compares and passes on are modelled by the
  real number their literal denotes; scores are compared as totally ordered numbers.
\<close>

subsection \<open>Exceptions\<close>

text \<open>
  The script raises \<^verbatim>\<open>ValueError\<close> itself in two places; \<^verbatim>\<open>RuntimeError\<close> is what
  \<^verbatim>\<open>load_state_dict\<close> raises on a missing key; every other exception comes out of a
  framework call and is carried as it is.
\<close>

datatype 'e error = ValueError string | RuntimeError string | External 'e

subsection \<open>Graph data\<close>

text \<open>
  A tensor of shape \<open>[2, E]\<close> holding \<open>E\<close> edges is the list of its columns, so that
  \<^verbatim>\<open>shape[-1]\<close> is the length of the list and \<^verbatim>\<open>torch.cat(..., dim=-1)\<close> is append.
  The attributes \<^verbatim>\<open>edges\<close> and \<^verbatim>\<open>edge_labels\<close> do not exist on a loaded graph until
  \<^verbatim>\<open>generate_edge_data\<close> sets them. Everything else of the graph (features, labels,
  masks, edge weights) is owned by the framework and kept opaque in \<open>payload\<close>.
\<close>

type_synonym edge_tensor = "(nat \<times> nat) list"

record 'd data =
  payload :: 'd
  edge_index :: edge_tensor
  edges :: "edge_tensor option"
  edge_labels :: "nat list option"

text \<open>
  Lines 23 to 27. \<^verbatim>\<open>negative_sampling\<close> is the framework's (random) sampler, taken as a
  parameter.
\<close>

definition generate_edge_data ::
  "(edge_tensor \<Rightarrow> 'e + edge_tensor) \<Rightarrow> 'd data \<Rightarrow> 'e + 'd data" where
  "generate_edge_data negative_sampling dataset =
     (case negative_sampling (edge_index dataset) of
        Inl e \<Rightarrow> Inl e
      | Inr negative_edges \<Rightarrow>
          (let labels = replicate (length negative_edges) 0
                        @ replicate (length (edge_index dataset)) 1
           in Inr (dataset\<lparr>edges := Some (edge_index dataset @ negative_edges),
                           edge_labels := Some labels\<rparr>)))"

subsection \<open>Traces\<close>

text \<open>
  A run of the script is the list of the calls it makes into the framework and of the lines
  it prints, in order, together with how it ends: an exception or a value. A call that
  raises is still in the trace, as the last event.
\<close>

datatype arch = GCN | GIN | GAT

datatype 'm module = Framework 'm | LinkPredictor "'m module"

datatype loss = binary_cross_entropy_with_logits | cross_entropy

record gnn_kwargs =
  kw_in_channels :: nat
  kw_output_channels :: nat
  kw_hidden_channels :: nat
  kw_num_layers :: nat

record ('d, 'm) glt_kwargs =
  kw_task :: "string option"
  kw_module :: "'m module"
  kw_graph :: "'d data"
  kw_lr :: real
  kw_reg_graph :: real
  kw_reg_model :: real
  kw_prune_rate_graph :: real
  kw_prune_rate_model :: real
  kw_optim_args :: "(string \<times> real) list"
  kw_seed :: nat
  kw_verbose :: bool
  kw_ignore_keys :: "string list"
  kw_max_train_epochs :: nat
  kw_loss_fn :: loss

datatype ('d, 'm) event =
    Call_parse_args
  | Call_Planetoid string string
  | Print string
  | Call_to_device
  | Call_generate_edge_data
  | Print_nodes nat
  | Print_edges nat
  | Call_gnn arch gnn_kwargs
  | Call_module_to
  | Call_GLTSearch "('d, 'm) glt_kwargs"
  | Call_prune
  | Call_Adam
  | Call_loss nat
  | Call_backward nat
  | Call_step nat
  | Call_scores nat
  | Set_postfix real real real
  | Print_final_test real

type_synonym ('d, 'm, 'e, 'a) run = "('d, 'm) event list \<times> ('e error + 'a)"

definition ret :: "'a \<Rightarrow> ('d, 'm, 'e, 'a) run" where
  "ret v = ([], Inr v)"

definition raise :: "'e error \<Rightarrow> ('d, 'm, 'e, 'a) run" where
  "raise err = ([], Inl err)"

definition emit :: "('d, 'm) event \<Rightarrow> ('d, 'm, 'e, unit) run" where
  "emit ev = ([ev], Inr ())"

definition ext :: "('d, 'm) event \<Rightarrow> 'e + 'a \<Rightarrow> ('d, 'm, 'e, 'a) run" where
  "ext ev r = ([ev], case r of Inl e \<Rightarrow> Inl (External e) | Inr v \<Rightarrow> Inr v)"

definition seq :: "('d, 'm, 'e, 'a) run \<Rightarrow> ('a \<Rightarrow> ('d, 'm, 'e, 'b) run) \<Rightarrow> ('d, 'm, 'e, 'b) run" where
  "seq m k =
     (case snd m of
        Inl err \<Rightarrow> (fst m, Inl err)
      | Inr v \<Rightarrow> (fst m @ fst (k v), snd (k v)))"

subsection \<open>The command line (lines 100 to 109)\<close>

text \<open>
  Each \<^verbatim>\<open>add_argument\<close> call is recorded with what the script passes to it: the option
  strings, and the \<^verbatim>\<open>default\<close>, \<^verbatim>\<open>type\<close> and \<^verbatim>\<open>action\<close> keywords where given. Parsing
  itself is argparse's and is an operation of the environment; it yields the namespace
  \<open>args\<close> or raises.
\<close>

datatype pyval = PyStr string | PyFloat real

datatype arg_type = Float

datatype arg_action = Store_true

record add_argument =
  name_or_flags :: "string list"
  arg_default :: "pyval option"
  arg_type :: "arg_type option"
  arg_action :: "arg_action option"

definition parser :: "add_argument list" where
  "parser =
    [\<lparr>name_or_flags = [''-d'', ''--dataset''], arg_default = Some (PyStr ''Cora''),
      arg_type = None, arg_action = None\<rparr>,
     \<lparr>name_or_flags = [''-m'', ''--model''], arg_default = Some (PyStr ''gcn''),
      arg_type = None, arg_action = None\<rparr>,
     \<lparr>name_or_flags = [''--reg_graph''], arg_default = Some (PyFloat 0.001),
      arg_type = Some Float, arg_action = None\<rparr>,
     \<lparr>name_or_flags = [''--reg_model''], arg_default = Some (PyFloat 0.001),
      arg_type = Some Float, arg_action = None\<rparr>,
     \<lparr>name_or_flags = [''--prune_rate_graph''], arg_default = Some (PyFloat 0.05),
      arg_type = Some Float, arg_action = None\<rparr>,
     \<lparr>name_or_flags = [''--prune_rate_model''], arg_default = Some (PyFloat 0.8),
      arg_type = Some Float, arg_action = None\<rparr>,
     \<lparr>name_or_flags = [''--task''], arg_default = None,
      arg_type = None, arg_action = None\<rparr>,
     \<lparr>name_or_flags = [''-v'', ''--verbose''], arg_default = None,
      arg_type = None, arg_action = Some Store_true\<rparr>]"

definition flags :: "add_argument list \<Rightarrow> string list" where
  "flags p = concat (map name_or_flags p)"

definition find_flag :: "add_argument list \<Rightarrow> string \<Rightarrow> add_argument option" where
  "find_flag p f = find (\<lambda>a. f \<in> set (name_or_flags a)) p"

record args =
  args_dataset :: string
  args_model :: string
  args_reg_graph :: real
  args_reg_model :: real
  args_prune_rate_graph :: real
  args_prune_rate_model :: real
  args_task :: "string option"
  args_verbose :: bool

subsection \<open>The main flow (lines 99 to 176)\<close>

text \<open>
  The framework as the main flow uses it. \<open>'ds\<close> is a loaded Planetoid dataset, \<open>'m\<close> a
  framework model, \<open>'s\<close> a \<^verbatim>\<open>GLTSearch\<close> object, \<open>'r\<close> what \<^verbatim>\<open>prune()\<close> returns.
  \<open>first_to_device\<close> is \<^verbatim>\<open>dataset[0].to(device)\<close>, \<open>gnn_constructor\<close> the three model constructors,
  \<open>module_to\<close> a model's \<^verbatim>\<open>.to(device)\<close>.
\<close>

record ('e, 'ds, 'd, 'm, 's, 'r) framework =
  parse_args :: "add_argument list \<Rightarrow> 'e + args"
  Planetoid :: "string \<Rightarrow> string \<Rightarrow> 'e + 'ds"
  num_node_features :: "'ds \<Rightarrow> nat"
  first_to_device :: "'ds \<Rightarrow> 'e + 'd data"
  negative_sampling :: "edge_tensor \<Rightarrow> 'e + edge_tensor"
  num_nodes :: "'d data \<Rightarrow> nat"
  num_edges :: "'d data \<Rightarrow> nat"
  gnn_constructor :: "arch \<Rightarrow> gnn_kwargs \<Rightarrow> 'e + 'm"
  module_to :: "'m \<Rightarrow> 'e + 'm"
  GLTSearch :: "('d, 'm) glt_kwargs \<Rightarrow> 'e + 's"
  prune :: "'s \<Rightarrow> 'e + 'r"

text \<open>
  \<^verbatim>\<open>str.lower\<close> on the letters A to Z. Other characters are left as they are: no
  character outside A to Z lowercases to one of the letters of gcn, gin and gat alone, so
  the three comparisons of the model name come out as in Python.
\<close>

definition lower_char :: "char \<Rightarrow> char" where
  "lower_char c =
     (let n = (of_char c :: nat) in if 65 \<le> n \<and> n \<le> 90 then char_of (n + 32) else c)"

definition lower :: "string \<Rightarrow> string" where
  "lower s = map lower_char s"

definition hidden_channels :: nat where
  "hidden_channels = 512"

definition gnn_kwargs_of :: "('e, 'ds, 'd, 'm, 's, 'r) framework \<Rightarrow> 'ds \<Rightarrow> gnn_kwargs" where
  "gnn_kwargs_of env dataset =
     \<lparr>kw_in_channels = num_node_features env dataset,
      kw_output_channels = hidden_channels,
      kw_hidden_channels = hidden_channels,
      kw_num_layers = 2\<rparr>"

text \<open>Lines 121 to 147: the model is built by one of three constructors and moved to the device.\<close>

definition build_gnn ::
  "('e, 'ds, 'd, 'm, 's, 'r) framework \<Rightarrow> args \<Rightarrow> 'ds \<Rightarrow> ('d, 'm, 'e, 'm) run" where
  "build_gnn env args dataset =
     (if lower (args_model args) = ''gcn'' then
        seq (ext (Call_gnn GCN (gnn_kwargs_of env dataset)) (gnn_constructor env GCN (gnn_kwargs_of env dataset)))
          (\<lambda>m. ext Call_module_to (module_to env m))
      else if lower (args_model args) = ''gin'' then
        seq (ext (Call_gnn GIN (gnn_kwargs_of env dataset)) (gnn_constructor env GIN (gnn_kwargs_of env dataset)))
          (\<lambda>m. ext Call_module_to (module_to env m))
      else if lower (args_model args) = ''gat'' then
        seq (ext (Call_gnn GAT (gnn_kwargs_of env dataset)) (gnn_constructor env GAT (gnn_kwargs_of env dataset)))
          (\<lambda>m. ext Call_module_to (module_to env m))
      else raise (ValueError ''model must be one of gcn, gin, gat''))"

text \<open>Lines 154 to 174: the keyword arguments of \<^verbatim>\<open>GLTSearch\<close>.\<close>

definition search_kwargs :: "args \<Rightarrow> 'm module \<Rightarrow> 'd data \<Rightarrow> ('d, 'm) glt_kwargs" where
  "search_kwargs args gnn data =
     \<lparr>kw_task = args_task args,
      kw_module = gnn,
      kw_graph = data,
      kw_lr = 0.008,
      kw_reg_graph = args_reg_graph args,
      kw_reg_model = args_reg_model args,
      kw_prune_rate_graph = args_prune_rate_graph args,
      kw_prune_rate_model = args_prune_rate_model args,
      kw_optim_args = [(''weight_decay'', 0.00008)],
      kw_seed = 1234,
      kw_verbose = args_verbose args,
      kw_ignore_keys = [''eps''],
      kw_max_train_epochs = 200,
      kw_loss_fn = (if args_task args = Some ''link_prediction''
                    then binary_cross_entropy_with_logits else cross_entropy)\<rparr>"

text \<open>
  The body under \<^verbatim>\<open>if __name__ == "__main__"\<close>, statement by statement. The call of
  \<^verbatim>\<open>baseline\<close> on line 152 is a comment in the source, so it is no step here.
\<close>

definition main :: "('e, 'ds, 'd, 'm, 's, 'r) framework \<Rightarrow> ('d, 'm, 'e, 'r) run" where
  "main env =
     seq (ext Call_parse_args (parse_args env parser)) (\<lambda>args.
     seq (ext (Call_Planetoid (''tmp/'' @ args_dataset args) (args_dataset args))
            (Planetoid env (''tmp/'' @ args_dataset args) (args_dataset args))) (\<lambda>dataset.
     seq (emit (Print (args_dataset args))) (\<lambda>_.
     seq (emit (Print (args_model args))) (\<lambda>_.
     seq (ext Call_to_device (first_to_device env dataset)) (\<lambda>data.
     seq (if args_task args = Some ''link_prediction''
          then ext Call_generate_edge_data (generate_edge_data (negative_sampling env) data)
          else ret data) (\<lambda>data.
     seq (emit (Print_nodes (num_nodes env data))) (\<lambda>_.
     seq (emit (Print_edges (num_edges env data))) (\<lambda>_.
     seq (build_gnn env args dataset) (\<lambda>gnn.
     seq (ret (if args_task args = Some ''link_prediction''
               then LinkPredictor (Framework gnn) else Framework gnn)) (\<lambda>gnn.
     seq (ext (Call_GLTSearch (search_kwargs args gnn data))
            (GLTSearch env (search_kwargs args gnn data))) (\<lambda>trainer.
     ext Call_prune (prune env trainer))))))))))))"

subsection \<open>The baseline training loop (lines 42 to 96)\<close>

text \<open>
  Parameter tensors live in a store, a map from addresses to tensor values, because the
  function depends on which tensor objects share storage. A model is the list of its
  named parameter tensors, each given by the address of its storage.

  \<^verbatim>\<open>Module.state_dict()\<close> returns a dictionary from names to the module's own tensors
  (detached, on the same storage), not to copies; so it is the same list of addresses.
  \<^verbatim>\<open>Module.load_state_dict(sd)\<close> copies, for each parameter of the module, the value of
  the tensor \<open>sd\<close> holds under its name into the parameter, in place, and raises
  \<^verbatim>\<open>RuntimeError\<close> when a name is missing.
\<close>

type_synonym addr = nat

type_synonym 't store = "addr \<Rightarrow> 't"

type_synonym module_params = "(string \<times> addr) list"

definition state_dict :: "module_params \<Rightarrow> module_params" where
  "state_dict model = model"

fun load_state_dict :: "module_params \<Rightarrow> module_params \<Rightarrow> 't store \<Rightarrow> string + 't store" where
  "load_state_dict [] sd st = Inr st"
| "load_state_dict ((name, a) # ps) sd st =
     (case map_of sd name of
        None \<Rightarrow> Inl (''Missing key(s) in state_dict: '' @ name)
      | Some b \<Rightarrow> load_state_dict ps sd (st(a := st b)))"

text \<open>
  The framework as the training loop uses it; every operation gets the epoch, since a
  forward pass in training mode is random. \<open>'o\<close> is the optimizer's state, \<open>'l\<close> a loss
  tensor, \<open>'g\<close> the gradients.
  \<^item> \<open>Adam\<close>: \<^verbatim>\<open>torch.optim.Adam(model.parameters(), lr=8e-3, weight_decay=8e-5)\<close>.
  \<^item> \<open>node_loss\<close>: lines 58 to 62, the forward pass and the loss on the training nodes.
  \<^item> \<open>link_loss\<close>: lines 64 to 69, the forward pass on \<^verbatim>\<open>graph.edges\<close> and the loss on the
    training edges.
  \<^item> \<open>backward\<close>: \<^verbatim>\<open>loss.backward()\<close>.
  \<^item> \<open>step\<close>: \<^verbatim>\<open>optimizer.step()\<close>, which updates the parameter tensors in place.
  \<^item> \<open>node_scores\<close>: lines 78 and 79; \<open>link_scores\<close>: lines 81 to 84.
  \<^item> \<open>item\<close>: \<^verbatim>\<open>loss.item()\<close>.
\<close>

record ('e, 'd, 't, 'o, 'l, 'g) torch =
  Adam :: "module_params \<Rightarrow> 'e + 'o"
  node_loss :: "nat \<Rightarrow> loss \<Rightarrow> module_params \<Rightarrow> 'd data \<Rightarrow> 't store \<Rightarrow> 'e + 'l"
  link_loss :: "nat \<Rightarrow> loss \<Rightarrow> module_params \<Rightarrow> 'd data \<Rightarrow> 't store \<Rightarrow> 'e + 'l"
  backward :: "nat \<Rightarrow> 'l \<Rightarrow> 'e + 'g"
  step :: "nat \<Rightarrow> 'o \<Rightarrow> 'g \<Rightarrow> module_params \<Rightarrow> 't store \<Rightarrow> 'e + 't store \<times> 'o"
  node_scores :: "nat \<Rightarrow> module_params \<Rightarrow> 'd data \<Rightarrow> 't store \<Rightarrow> 'e + real \<times> real"
  link_scores :: "nat \<Rightarrow> module_params \<Rightarrow> 'd data \<Rightarrow> 't store \<Rightarrow> 'e + real \<times> real"
  item :: "'l \<Rightarrow> real"

record ('t, 'o) loop_state =
  store :: "'t store"
  optimizer :: 'o
  best_val_score :: real
  final_test_score :: real

text \<open>The text an f-string puts for the task: \<^verbatim>\<open>None\<close> when the flag was not given.\<close>

definition str :: "string option \<Rightarrow> string" where
  "str task = (case task of None \<Rightarrow> ''None'' | Some s \<Rightarrow> s)"

text \<open>One pass of the loop body, lines 54 to 94.\<close>

definition epoch_body ::
  "('e, 'd, 't, 'o, 'l, 'g) torch \<Rightarrow> loss \<Rightarrow> module_params \<Rightarrow> 'd data \<Rightarrow> string option \<Rightarrow> nat
     \<Rightarrow> ('t, 'o) loop_state \<Rightarrow> ('d, 'm, 'e, ('t, 'o) loop_state) run" where
  "epoch_body env loss_fn model graph task epoch s =
     seq (if task = Some ''node_classification''
          then ext (Call_loss epoch) (node_loss env epoch loss_fn model graph (store s))
          else if task = Some ''link_prediction''
          then ext (Call_loss epoch) (link_loss env epoch loss_fn model graph (store s))
          else raise (ValueError (str task @ '' must be one of node class. or link pred.''))) (\<lambda>loss.
     seq (ext (Call_backward epoch) (backward env epoch loss)) (\<lambda>grads.
     seq (ext (Call_step epoch) (step env epoch (optimizer s) grads model (store s))) (\<lambda>(store', optimizer').
     seq (if task = Some ''node_classification''
          then ext (Call_scores epoch) (node_scores env epoch model graph store')
          else if task = Some ''link_prediction''
          then ext (Call_scores epoch) (link_scores env epoch model graph store')
          else raise (ValueError (str task @ '' must be one of node class. or link pred.''))) (\<lambda>(val_score, test_score).
     seq (emit (Set_postfix (item env loss) val_score test_score)) (\<lambda>_.
     ret (if val_score > best_val_score s
          then \<lparr>store = store', optimizer = optimizer',
                best_val_score = val_score, final_test_score = test_score\<rparr>
          else \<lparr>store = store', optimizer = optimizer',
                best_val_score = best_val_score s, final_test_score = final_test_score s\<rparr>))))))"

text \<open>\<^verbatim>\<open>for epoch in t\<close>: the body once for each epoch of the range, in order.\<close>

fun epochs ::
  "('e, 'd, 't, 'o, 'l, 'g) torch \<Rightarrow> loss \<Rightarrow> module_params \<Rightarrow> 'd data \<Rightarrow> string option \<Rightarrow> nat list
     \<Rightarrow> ('t, 'o) loop_state \<Rightarrow> ('d, 'm, 'e, ('t, 'o) loop_state) run" where
  "epochs env loss_fn model graph task [] s = ret s"
| "epochs env loss_fn model graph task (epoch # t) s =
     seq (epoch_body env loss_fn model graph task epoch s)
       (\<lambda>s'. epochs env loss_fn model graph task t s')"

text \<open>
  \<^verbatim>\<open>baseline(model, graph, task, verbose)\<close>, run on a store; it returns the store it leaves.
  \<^verbatim>\<open>verbose\<close> only switches the progress bar's display.
\<close>

definition baseline ::
  "('e, 'd, 't, 'o, 'l, 'g) torch \<Rightarrow> module_params \<Rightarrow> 'd data \<Rightarrow> string option \<Rightarrow> bool
     \<Rightarrow> 't store \<Rightarrow> ('d, 'm, 'e, 't store) run" where
  "baseline env model graph task verbose st =
     (let initial_params = state_dict model;
          best_val_score0 = 0;
          final_test_score0 = 0
      in
      seq (ext Call_Adam (Adam env model)) (\<lambda>optimizer0.
      seq (ret (if task = Some ''link_prediction''
                then binary_cross_entropy_with_logits else cross_entropy)) (\<lambda>loss_fn.
      seq (epochs env loss_fn model graph task [0..<200]
             \<lparr>store = st, optimizer = optimizer0,
              best_val_score = best_val_score0, final_test_score = final_test_score0\<rparr>) (\<lambda>s.
      seq (case load_state_dict model initial_params (store s) of
             Inl msg \<Rightarrow> raise (RuntimeError msg)
           | Inr st' \<Rightarrow> ret st') (\<lambda>st'.
      seq (emit (Print_final_test (final_test_score s))) (\<lambda>_.
      ret st'))))))"

section \<open>Auxiliary definitions for the statements\<close>

subsection \<open>Classifying events and runs\<close>

text \<open>
  The run of the main flow gets as far as the model construction, with the parsed arguments
  \<open>args\<close>, the loaded \<open>dataset\<close> and the graph \<open>data\<close> (after edge data generation, for
  link prediction): nothing before line 121 raised.
\<close>

definition reaches_model_construction ::
  "('e, 'ds, 'd, 'm, 's, 'r) framework \<Rightarrow> args \<Rightarrow> 'ds \<Rightarrow> 'd data \<Rightarrow> bool" where
  "reaches_model_construction env args dataset data \<longleftrightarrow>
     parse_args env parser = Inr args \<and>
     Planetoid env (''tmp/'' @ args_dataset args) (args_dataset args) = Inr dataset \<and>
     (case first_to_device env dataset of
        Inl e \<Rightarrow> False
      | Inr d \<Rightarrow>
          (if args_task args = Some ''link_prediction''
           then generate_edge_data (negative_sampling env) d = Inr data
           else d = data))"

definition is_gnn_call :: "('d, 'm) event \<Rightarrow> bool" where
  "is_gnn_call ev = (case ev of Call_gnn a kw \<Rightarrow> True | _ \<Rightarrow> False)"

text \<open>The events that only \<open>baseline\<close> produces.\<close>

definition baseline_event :: "('d, 'm) event \<Rightarrow> bool" where
  "baseline_event ev =
     (case ev of
        Call_Adam \<Rightarrow> True
      | Call_loss epoch \<Rightarrow> True
      | Call_backward epoch \<Rightarrow> True
      | Call_step epoch \<Rightarrow> True
      | Call_scores epoch \<Rightarrow> True
      | Set_postfix l v t \<Rightarrow> True
      | Print_final_test x \<Rightarrow> True
      | _ \<Rightarrow> False)"

subsection \<open>What the training loop reports\<close>

text \<open>
  The validation and test scores of the epochs, in order, as the progress bar gets them
  by \<^verbatim>\<open>set_postfix\<close>.
\<close>

fun postfix_scores :: "('d, 'm) event list \<Rightarrow> (real \<times> real) list" where
  "postfix_scores [] = []"
| "postfix_scores (Set_postfix l v t # evs) = (v, t) # postfix_scores evs"
| "postfix_scores (ev # evs) = postfix_scores evs"

text \<open>
  The final test performance in the words of the claim about it: the epochs whose
  validation score strictly exceeds the validation score of every earlier epoch, and the
  test score of the last of them; 0 when no validation score exceeds 0.
\<close>

definition record_epochs :: "real list \<Rightarrow> nat list" where
  "record_epochs vals =
     filter (\<lambda>k. list_all (\<lambda>j. vals ! j < vals ! k) [0..<k]) [0..<length vals]"

definition claimed_final_test :: "real list \<Rightarrow> real list \<Rightarrow> real" where
  "claimed_final_test vals tests =
     (if list_ex (\<lambda>v. v > 0) vals then tests ! last (record_epochs vals) else 0)"

subsection \<open>Concrete environments\<close>

text \<open>
  A command line and a framework in which every call succeeds, on a graph with nodes
  0, 1, 2 and the edges \<open>(0,1)\<close> and \<open>(1,0)\<close>; used to evaluate the script.
\<close>

definition example_args :: "string \<Rightarrow> string option \<Rightarrow> args" where
  "example_args m t =
     \<lparr>args_dataset = ''Cora'', args_model = m, args_reg_graph = 0.001, args_reg_model = 0.001,
      args_prune_rate_graph = 0.05, args_prune_rate_model = 0.8, args_task = t,
      args_verbose = False\<rparr>"

definition example_framework :: "args \<Rightarrow> (nat, unit, unit, unit, unit, unit) framework" where
  "example_framework a =
     \<lparr>parse_args = (\<lambda>p. Inr a),
      Planetoid = (\<lambda>root name. Inr ()),
      num_node_features = (\<lambda>ds. 1433),
      first_to_device = (\<lambda>ds. Inr \<lparr>payload = (), edge_index = [(0, 1), (1, 0)],
                                    edges = None, edge_labels = None\<rparr>),
      negative_sampling = (\<lambda>ei. Inr [(0, 2)]),
      num_nodes = (\<lambda>d. 3),
      num_edges = (\<lambda>d. 2),
      gnn_constructor = (\<lambda>a kw. Inr ()),
      module_to = (\<lambda>m. Inr m),
      GLTSearch = (\<lambda>kw. Inr ()),
      prune = (\<lambda>s. Inr ())\<rparr>"

text \<open>
  A framework for the training loop in which every call succeeds. Tensor values are
  integers and an optimizer step adds one to every parameter of the model. The validation
  score is 0.7 in epoch 1 and 0.5 in every other epoch; the test score is 0.6 in epoch 1
  and 0.9 in every other epoch.
\<close>

definition example_torch :: "(nat, unit, int, unit, unit, unit) torch" where
  "example_torch =
     \<lparr>Adam = (\<lambda>model. Inr ()),
      node_loss = (\<lambda>epoch loss_fn model graph st. Inr ()),
      link_loss = (\<lambda>epoch loss_fn model graph st. Inr ()),
      backward = (\<lambda>epoch loss. Inr ()),
      step = (\<lambda>epoch opt grads model st.
                Inr (\<lambda>a. if a \<in> set (map snd model) then st a + 1 else st a, ())),
      node_scores = (\<lambda>epoch model graph st.
                Inr (if epoch = 1 then 7 / 10 else 1 / 2, if epoch = 1 then 3 / 5 else 9 / 10)),
      link_scores = (\<lambda>epoch model graph st.
                Inr (if epoch = 1 then 7 / 10 else 1 / 2, if epoch = 1 then 3 / 5 else 9 / 10)),
      item = (\<lambda>loss. 0)\<rparr>"

definition example_graph :: "unit data" where
  "example_graph = \<lparr>payload = (), edge_index = [(0, 1), (1, 0)], edges = None, edge_labels = None\<rparr>"

text \<open>
  Frameworks in which one call raises. In \<open>failing_framework n a\<close> the command line
  parses to \<open>a\<close> and the \<open>n\<close>-th framework call of the main flow raises the exception
  \<open>n\<close>, counting from 0 in the order parse_args, Planetoid, to(device), negative_sampling,
  the model constructor, the model's to(device), GLTSearch, prune; every other call
  succeeds as in \<open>example_framework\<close>.
\<close>

definition failing_framework :: "nat \<Rightarrow> args \<Rightarrow> (nat, unit, unit, unit, unit, unit) framework" where
  "failing_framework n a =
     \<lparr>parse_args = (\<lambda>p. if n = 0 then Inl 0 else Inr a),
      Planetoid = (\<lambda>root name. if n = 1 then Inl 1 else Inr ()),
      num_node_features = (\<lambda>ds. 1433),
      first_to_device = (\<lambda>ds. if n = 2 then Inl 2
                               else Inr \<lparr>payload = (), edge_index = [(0, 1), (1, 0)],
                                         edges = None, edge_labels = None\<rparr>),
      negative_sampling = (\<lambda>ei. if n = 3 then Inl 3 else Inr [(0, 2)]),
      num_nodes = (\<lambda>d. 3),
      num_edges = (\<lambda>d. 2),
      gnn_constructor = (\<lambda>a kw. if n = 4 then Inl 4 else Inr ()),
      module_to = (\<lambda>m. if n = 5 then Inl 5 else Inr m),
      GLTSearch = (\<lambda>kw. if n = 6 then Inl 6 else Inr ()),
      prune = (\<lambda>s. if n = 7 then Inl 7 else Inr ())\<rparr>"

text \<open>
  In \<open>failing_torch n k\<close> the optimizer's constructor raises the exception 0 when
  \<open>n = 0\<close>, and in epoch \<open>k\<close> the loss computation raises 1 when \<open>n = 1\<close>,
  \<^verbatim>\<open>backward\<close> raises 2 when \<open>n = 2\<close>, the optimizer step raises 3 when \<open>n = 3\<close> and the
  evaluation raises 4 when \<open>n = 4\<close>. Every other call succeeds; a step leaves the
  parameters as they are and both scores are 0.5 in every epoch.
\<close>

definition failing_torch :: "nat \<Rightarrow> nat \<Rightarrow> (nat, unit, int, unit, unit, unit) torch" where
  "failing_torch n k =
     \<lparr>Adam = (\<lambda>model. if n = 0 then Inl 0 else Inr ()),
      node_loss = (\<lambda>epoch loss_fn model graph st. if n = 1 \<and> epoch = k then Inl 1 else Inr ()),
      link_loss = (\<lambda>epoch loss_fn model graph st. if n = 1 \<and> epoch = k then Inl 1 else Inr ()),
      backward = (\<lambda>epoch loss. if n = 2 \<and> epoch = k then Inl 2 else Inr ()),
      step = (\<lambda>epoch opt grads model st. if n = 3 \<and> epoch = k then Inl 3 else Inr (st, ())),
      node_scores = (\<lambda>epoch model graph st. if n = 4 \<and> epoch = k then Inl 4 else Inr (1 / 2, 1 / 2)),
      link_scores = (\<lambda>epoch model graph st. if n = 4 \<and> epoch = k then Inl 4 else Inr (1 / 2, 1 / 2)),
      item = (\<lambda>loss. 0)\<rparr>"

section \<open>Runs: basic facts\<close>

text \<open>How the trace and the outcome of a run are put together from those of its steps.\<close>

lemma fst_ret [simp]: "fst (ret v) = []"
  by (simp add: ret_def)

lemma snd_ret [simp]: "snd (ret v) = Inr v"
  by (simp add: ret_def)

lemma fst_raise [simp]: "fst (raise e) = []"
  by (simp add: raise_def)

lemma snd_raise [simp]: "snd (raise e) = Inl e"
  by (simp add: raise_def)

lemma fst_emit [simp]: "fst (emit ev) = [ev]"
  by (simp add: emit_def)

lemma snd_emit [simp]: "snd (emit ev) = Inr ()"
  by (simp add: emit_def)

lemma fst_ext [simp]: "fst (ext ev r) = [ev]"
  by (simp add: ext_def)

lemma snd_ext_Inl [simp]: "snd (ext ev (Inl e)) = Inl (External e)"
  by (simp add: ext_def)

lemma snd_ext_Inr [simp]: "snd (ext ev (Inr v)) = Inr v"
  by (simp add: ext_def)

lemma snd_seq: "snd (seq m k) = (case snd m of Inl err \<Rightarrow> Inl err | Inr v \<Rightarrow> snd (k v))"
  by (simp add: seq_def split: sum.splits)

lemma fst_seq: "fst (seq m k) = (case snd m of Inl err \<Rightarrow> fst m | Inr v \<Rightarrow> fst m @ fst (k v))"
  by (simp add: seq_def split: sum.splits)


section \<open>The main flow, step by step\<close>

lemma lower_gcn: "lower ''gcn'' = ''gcn''"
  by code_simp

lemma lower_resnet: "lower ''ResNet'' = ''resnet''"
  by code_simp

lemma lower_GAT: "lower ''GAT'' = ''gat''"
  by code_simp

lemma snd_build_gnn:
  "snd (build_gnn env args ds) =
     (if lower (args_model args) \<in> {''gcn'', ''gin'', ''gat''}
      then (case gnn_constructor env (if lower (args_model args) = ''gcn'' then GCN else if lower (args_model args) = ''gin'' then GIN else GAT) (gnn_kwargs_of env ds) of
              Inl e \<Rightarrow> Inl (External e)
            | Inr m \<Rightarrow> (case module_to env m of Inl e \<Rightarrow> Inl (External e) | Inr m' \<Rightarrow> Inr m'))
      else Inl (ValueError ''model must be one of gcn, gin, gat''))"
  by (simp add: build_gnn_def snd_seq ext_def split: sum.splits)


lemma reaches_model_constructionD:
  assumes "reaches_model_construction env args ds d"
  shows "\<exists>d0. parse_args env parser = Inr args
    \<and> Planetoid env (''tmp/'' @ args_dataset args) (args_dataset args) = Inr ds
    \<and> first_to_device env ds = Inr d0
    \<and> (if args_task args = Some ''link_prediction''
        then generate_edge_data (negative_sampling env) d0 = Inr d else d0 = d)"
  using assms unfolding reaches_model_construction_def
  by (cases "first_to_device env ds") simp_all

lemma snd_main_reaches:
  assumes "reaches_model_construction env args ds d"
  shows "snd (main env) =
     (case snd (build_gnn env args ds) of
        Inl err \<Rightarrow> Inl err
      | Inr g \<Rightarrow>
         (case GLTSearch env (search_kwargs args
                 (if args_task args = Some ''link_prediction''
                  then LinkPredictor (Framework g) else Framework g) d) of
            Inl e \<Rightarrow> Inl (External e)
          | Inr trainer \<Rightarrow> (case prune env trainer of Inl e \<Rightarrow> Inl (External e) | Inr r \<Rightarrow> Inr r)))"
proof -
  from reaches_model_constructionD [OF assms] obtain d0 where *: "parse_args env parser = Inr args"
    "Planetoid env (''tmp/'' @ args_dataset args) (args_dataset args) = Inr ds"
    "first_to_device env ds = Inr d0"
    and gen: "if args_task args = Some ''link_prediction''
        then generate_edge_data (negative_sampling env) d0 = Inr d else d0 = d"
    by blast
  show ?thesis
  proof (cases "args_task args = Some ''link_prediction''")
    case True
    with * gen show ?thesis
      by (simp add: main_def snd_seq ext_def split: sum.splits)
  next
    case False
    with * gen show ?thesis
      by (simp add: main_def snd_seq ext_def split: sum.splits)
  qed
qed

lemma fst_build_gnn:
  "fst (build_gnn env args ds) =
     (if lower (args_model args) \<in> {''gcn'', ''gin'', ''gat''}
      then Call_gnn (if lower (args_model args) = ''gcn'' then GCN else if lower (args_model args) = ''gin'' then GIN else GAT) (gnn_kwargs_of env ds)
           # (case gnn_constructor env (if lower (args_model args) = ''gcn'' then GCN else if lower (args_model args) = ''gin'' then GIN else GAT) (gnn_kwargs_of env ds) of
              Inl e \<Rightarrow> [] | Inr m \<Rightarrow> [Call_module_to])
      else [])"
  by (simp add: build_gnn_def fst_seq ext_def split: sum.splits)

lemma fst_main_reaches:
  assumes "reaches_model_construction env args ds d"
  shows "fst (main env) =
     [Call_parse_args, Call_Planetoid (''tmp/'' @ args_dataset args) (args_dataset args),
      Print (args_dataset args), Print (args_model args), Call_to_device]
     @ (if args_task args = Some ''link_prediction'' then [Call_generate_edge_data] else [])
     @ [Print_nodes (num_nodes env d), Print_edges (num_edges env d)]
     @ fst (build_gnn env args ds)
     @ (case snd (build_gnn env args ds) of
          Inl err \<Rightarrow> []
        | Inr g \<Rightarrow>
            Call_GLTSearch (search_kwargs args
                 (if args_task args = Some ''link_prediction''
                  then LinkPredictor (Framework g) else Framework g) d)
            # (case GLTSearch env (search_kwargs args
                 (if args_task args = Some ''link_prediction''
                  then LinkPredictor (Framework g) else Framework g) d) of
                 Inl e \<Rightarrow> [] | Inr trainer \<Rightarrow> [Call_prune]))"
proof -
  from reaches_model_constructionD [OF assms] obtain d0 where *: "parse_args env parser = Inr args"
    "Planetoid env (''tmp/'' @ args_dataset args) (args_dataset args) = Inr ds"
    "first_to_device env ds = Inr d0"
    and gen: "if args_task args = Some ''link_prediction''
        then generate_edge_data (negative_sampling env) d0 = Inr d else d0 = d"
    by blast
  show ?thesis
  proof (cases "args_task args = Some ''link_prediction''")
    case True
    with * gen show ?thesis
      by (simp add: main_def fst_seq snd_seq split: sum.splits)
  next
    case False
    with * gen show ?thesis
      by (simp add: main_def fst_seq snd_seq split: sum.splits)
  qed
qed

lemma main_early:
  assumes "\<And>args ds d. \<not> reaches_model_construction env args ds d"
  shows "set (fst (main env)) \<subseteq>
     {Call_parse_args, Call_to_device, Call_generate_edge_data} \<union> range Print
       \<union> {ev. \<exists>r n. ev = Call_Planetoid r n}"
proof (cases "parse_args env parser")
  case Inl
  then show ?thesis by (simp add: main_def fst_seq)
next
  case (Inr args)
  note parse = this
  show ?thesis
  proof (cases "Planetoid env (''tmp/'' @ args_dataset args) (args_dataset args)")
    case Inl
    with parse show ?thesis by (simp add: main_def fst_seq)
  next
    case (Inr ds)
    note load = this
    show ?thesis
    proof (cases "first_to_device env ds")
      case Inl
      with parse load show ?thesis by (simp add: main_def fst_seq)
    next
      case (Inr d0)
      note dev = this
      show ?thesis
      proof (cases "args_task args = Some ''link_prediction''")
        case False
        with parse load dev have "reaches_model_construction env args ds d0"
          by (simp add: reaches_model_construction_def)
        with assms show ?thesis by blast
      next
        case True
        show ?thesis
        proof (cases "generate_edge_data (negative_sampling env) d0")
          case Inl
          with parse load dev True show ?thesis by (simp add: main_def fst_seq)
        next
          case (Inr d)
          with parse load dev True have "reaches_model_construction env args ds d"
            by (simp add: reaches_model_construction_def)
          with assms show ?thesis by blast
        qed
      qed
    qed
  qed
qed

lemma main_reaches_or_early:
  "(\<exists>args ds d. reaches_model_construction env args ds d) \<or>
   set (fst (main env)) \<subseteq>
     {Call_parse_args, Call_to_device, Call_generate_edge_data} \<union> range Print
       \<union> {ev. \<exists>r n. ev = Call_Planetoid r n}"
  using main_early [of env] by blast

lemma no_baseline_event_main: "\<not> list_ex baseline_event (fst (main env))"
proof -
  consider (reach) args ds d where "reaches_model_construction env args ds d"
    | (early) "set (fst (main env)) \<subseteq>
     {Call_parse_args, Call_to_device, Call_generate_edge_data} \<union> range Print
       \<union> {ev. \<exists>r n. ev = Call_Planetoid r n}"
    using main_reaches_or_early [of env] by blast
  then show ?thesis
  proof cases
    case reach
    show ?thesis
      unfolding fst_main_reaches [OF reach] fst_build_gnn
      by (simp add: baseline_event_def split: sum.splits)
  next
    case early
    then show ?thesis
      by (auto simp: list_ex_iff baseline_event_def)
  qed
qed

lemma main_returns:
  assumes "snd (main env) = Inr r"
  shows "\<exists>args ds d g trainer. reaches_model_construction env args ds d
      \<and> snd (build_gnn env args ds) = Inr g
      \<and> GLTSearch env (search_kwargs args
                 (if args_task args = Some ''link_prediction''
                  then LinkPredictor (Framework g) else Framework g) d) = Inr trainer
      \<and> prune env trainer = Inr r"
proof (cases "parse_args env parser")
  case Inl
  with assms show ?thesis by (simp add: main_def snd_seq)
next
  case (Inr args)
  note parse = this
  show ?thesis
  proof (cases "Planetoid env (''tmp/'' @ args_dataset args) (args_dataset args)")
    case Inl
    with assms parse show ?thesis by (simp add: main_def snd_seq)
  next
    case (Inr ds)
    note load = this
    show ?thesis
    proof (cases "first_to_device env ds")
      case Inl
      with assms parse load show ?thesis by (simp add: main_def snd_seq)
    next
      case (Inr d0)
      note dev = this
      have "\<exists>d. reaches_model_construction env args ds d"
      proof (cases "args_task args = Some ''link_prediction''")
        case False
        with parse load dev show ?thesis
          by (simp add: reaches_model_construction_def)
      next
        case True
        show ?thesis
        proof (cases "generate_edge_data (negative_sampling env) d0")
          case Inl
          with assms parse load dev True show ?thesis by (simp add: main_def snd_seq)
        next
          case (Inr d)
          with parse load dev True show ?thesis
            by (simp add: reaches_model_construction_def)
        qed
      qed
      then obtain d where reach: "reaches_model_construction env args ds d" ..
      let ?kw = "\<lambda>g. search_kwargs args
                 (if args_task args = Some ''link_prediction''
                  then LinkPredictor (Framework g) else Framework g) d"
      from assms obtain g where g: "snd (build_gnn env args ds) = Inr g"
        unfolding snd_main_reaches [OF reach]
        by (cases "snd (build_gnn env args ds)") simp_all
      with assms obtain trainer where t: "GLTSearch env (?kw g) = Inr trainer"
        unfolding snd_main_reaches [OF reach]
        by (cases "GLTSearch env (?kw g)") simp_all
      with assms g have "prune env trainer = Inr r"
        unfolding snd_main_reaches [OF reach]
        by (cases "prune env trainer") simp_all
      with reach g t show ?thesis by blast
    qed
  qed
qed

lemma build_gnn_bad_name:
  "lower (args_model args) \<notin> {''gcn'', ''gin'', ''gat''} \<Longrightarrow>
     snd (build_gnn env args ds) = Inl (ValueError ''model must be one of gcn, gin, gat'')"
  by (simp add: snd_build_gnn)

lemma build_gnn_good_name:
  "lower (args_model args) \<in> {''gcn'', ''gin'', ''gat''} \<Longrightarrow>
     snd (build_gnn env args ds) \<noteq> Inl (ValueError msg)"
  by (simp add: snd_build_gnn split: sum.splits)

lemma main_ValueError_iff:
  assumes "reaches_model_construction env args ds d"
  shows "snd (main env) = Inl (ValueError msg) \<longleftrightarrow> snd (build_gnn env args ds) = Inl (ValueError msg)"
proof (cases "snd (build_gnn env args ds)")
  case (Inl err)
  then show ?thesis by (simp add: snd_main_reaches [OF assms])
next
  case (Inr g)
  let ?kw = "search_kwargs args
                 (if args_task args = Some ''link_prediction''
                  then LinkPredictor (Framework g) else Framework g) d"
  show ?thesis
  proof (cases "GLTSearch env ?kw")
    case (Inl e)
    with Inr show ?thesis by (simp add: snd_main_reaches [OF assms])
  next
    case Inr2: (Inr trainer)
    show ?thesis
    proof (cases "prune env trainer")
      case (Inl e)
      with Inr Inr2 show ?thesis by (simp add: snd_main_reaches [OF assms])
    next
      case Inr3: (Inr r)
      with Inr Inr2 show ?thesis by (simp add: snd_main_reaches [OF assms])
    qed
  qed
qed

lemma reaches_example:
  "reaches_model_construction (example_framework (example_args m (Some ''node_classification'')))
     (example_args m (Some ''node_classification'')) () example_graph"
  by (simp add: reaches_model_construction_def example_framework_def example_args_def
      example_graph_def)

lemma build_gnn_events:
  assumes "ev \<in> set (fst (build_gnn env args ds))"
  shows "(\<exists>a. ev = Call_gnn a (gnn_kwargs_of env ds)) \<or> ev = Call_module_to"
proof -
  have *: "\<And>a. ev \<in> set (fst (seq (ext (Call_gnn a (gnn_kwargs_of env ds))
                (gnn_constructor env a (gnn_kwargs_of env ds)))
              (\<lambda>m. ext Call_module_to (module_to env m)))) \<Longrightarrow> ?thesis"
    by (simp add: fst_seq split: sum.splits) blast+
  from assms show ?thesis
    unfolding build_gnn_def
    by (simp split: if_splits) (blast dest: *)+
qed

lemma main_search_call:
  assumes reach: "reaches_model_construction env args ds d"
    and "Call_GLTSearch kw \<in> set (fst (main env))"
  shows "\<exists>g. snd (build_gnn env args ds) = Inr g \<and>
     kw = search_kwargs args
            (if args_task args = Some ''link_prediction''
             then LinkPredictor (Framework g) else Framework g) d"
proof -
  have nb: "Call_GLTSearch kw \<notin> set (fst (build_gnn env args ds))"
    using build_gnn_events [of "Call_GLTSearch kw" env args ds] by auto
  from assms(2) nb show ?thesis
    unfolding fst_main_reaches [OF reach]
    by (cases "snd (build_gnn env args ds)") (simp_all split: if_splits sum.splits)
qed

lemma main_generate_edge_data_iff:
  assumes reach: "reaches_model_construction env args ds d"
  shows "Call_generate_edge_data \<in> set (fst (main env))
     \<longleftrightarrow> args_task args = Some ''link_prediction''"
proof -
  have nb: "Call_generate_edge_data \<notin> set (fst (build_gnn env args ds))"
    using build_gnn_events [of Call_generate_edge_data env args ds] by auto
  then show ?thesis
    unfolding fst_main_reaches [OF reach]
    by (cases "snd (build_gnn env args ds)") (simp_all split: sum.splits)
qed

lemma search_call_reaches:
  assumes "Call_GLTSearch kw \<in> set (fst (main env))"
  shows "\<exists>args ds d. reaches_model_construction env args ds d"
  using main_reaches_or_early [of env] assms by auto

lemma main_stops_early:
  assumes "\<And>args ds d. \<not> reaches_model_construction env args ds d"
  shows "\<exists>e. snd (main env) = Inl (External e)"
proof (cases "parse_args env parser")
  case Inl
  then show ?thesis by (simp add: main_def snd_seq)
next
  case (Inr args)
  note parse = this
  show ?thesis
  proof (cases "Planetoid env (''tmp/'' @ args_dataset args) (args_dataset args)")
    case Inl
    with parse show ?thesis by (simp add: main_def snd_seq)
  next
    case (Inr ds)
    note load = this
    show ?thesis
    proof (cases "first_to_device env ds")
      case Inl
      with parse load show ?thesis by (simp add: main_def snd_seq)
    next
      case (Inr d0)
      note dev = this
      show ?thesis
      proof (cases "args_task args = Some ''link_prediction''")
        case False
        with parse load dev have "reaches_model_construction env args ds d0"
          by (simp add: reaches_model_construction_def)
        with assms show ?thesis by blast
      next
        case True
        show ?thesis
        proof (cases "generate_edge_data (negative_sampling env) d0")
          case Inl
          with parse load dev True show ?thesis by (simp add: main_def snd_seq)
        next
          case (Inr d)
          with parse load dev True have "reaches_model_construction env args ds d"
            by (simp add: reaches_model_construction_def)
          with assms show ?thesis by blast
        qed
      qed
    qed
  qed
qed

lemma main_ValueError_msg:
  assumes "snd (main env) = Inl (ValueError msg)"
  shows "msg = ''model must be one of gcn, gin, gat''"
proof (cases "\<exists>args ds d. reaches_model_construction env args ds d")
  case True
  then obtain args ds d where reach: "reaches_model_construction env args ds d" by blast
  from assms have b: "snd (build_gnn env args ds) = Inl (ValueError msg)"
    by (simp add: main_ValueError_iff [OF reach])
  show ?thesis
  proof (cases "lower (args_model args) \<in> {''gcn'', ''gin'', ''gat''}")
    case True
    with build_gnn_good_name [of args env ds msg] b show ?thesis by blast
  next
    case False
    with build_gnn_bad_name [of args env ds] b show ?thesis by simp
  qed
next
  case False
  then have "\<exists>e. snd (main env) = Inl (External e)"
    by (intro main_stops_early) blast
  with assms show ?thesis by auto
qed

section \<open>The training loop, step by step\<close>

lemma epoch_body_unsupported:
  assumes "task \<noteq> Some ''node_classification''" and "task \<noteq> Some ''link_prediction''"
  shows "epoch_body env loss_fn model graph task epoch s =
     ([], Inl (ValueError (str task @ '' must be one of node class. or link pred.'')))"
  using assms by (simp add: epoch_body_def prod_eq_iff fst_seq snd_seq)

lemma epoch_body_supported:
  assumes "task = Some ''node_classification'' \<or> task = Some ''link_prediction''"
  shows "epoch_body env loss_fn model graph task epoch s =
     seq (ext (Call_loss epoch)
            ((if task = Some ''node_classification'' then node_loss env else link_loss env)
               epoch loss_fn model graph (store s))) (\<lambda>loss.
     seq (ext (Call_backward epoch) (backward env epoch loss)) (\<lambda>grads.
     seq (ext (Call_step epoch) (step env epoch (optimizer s) grads model (store s))) (\<lambda>(store', optimizer').
     seq (ext (Call_scores epoch)
            ((if task = Some ''node_classification'' then node_scores env else link_scores env)
               epoch model graph store')) (\<lambda>(val_score, test_score).
     seq (emit (Set_postfix (item env loss) val_score test_score)) (\<lambda>_.
     ret (if val_score > best_val_score s
          then \<lparr>store = store', optimizer = optimizer',
                best_val_score = val_score, final_test_score = test_score\<rparr>
          else \<lparr>store = store', optimizer = optimizer',
                best_val_score = best_val_score s, final_test_score = final_test_score s\<rparr>))))))"
  using assms by (auto simp: epoch_body_def)

lemma epoch_body_Inr:
  assumes "snd (epoch_body env loss_fn model graph task epoch s) = Inr s'" (is "snd ?R = _")
  shows "\<exists>loss grads store' optimizer' val_score test_score.
      (task = Some ''node_classification'' \<or> task = Some ''link_prediction'')
    \<and> (if task = Some ''node_classification'' then node_loss env else link_loss env)
               epoch loss_fn model graph (store s) = Inr loss
    \<and> backward env epoch loss = Inr grads
    \<and> step env epoch (optimizer s) grads model (store s) = Inr (store', optimizer')
    \<and> (if task = Some ''node_classification'' then node_scores env else link_scores env)
               epoch model graph store' = Inr (val_score, test_score)
    \<and> fst (epoch_body env loss_fn model graph task epoch s) =
         [Call_loss epoch, Call_backward epoch, Call_step epoch, Call_scores epoch,
          Set_postfix (item env loss) val_score test_score]
    \<and> s' = (if val_score > best_val_score s
          then \<lparr>store = store', optimizer = optimizer',
                best_val_score = val_score, final_test_score = test_score\<rparr>
          else \<lparr>store = store', optimizer = optimizer',
                best_val_score = best_val_score s, final_test_score = final_test_score s\<rparr>)"
proof -
  have sup: "task = Some ''node_classification'' \<or> task = Some ''link_prediction''"
  proof (rule ccontr)
    assume "\<not> ?thesis"
    then have "snd ?R
       = Inl (ValueError (str task @ '' must be one of node class. or link pred.''))"
      by (simp add: epoch_body_unsupported)
    with assms show False by simp
  qed
  let ?loss = "(if task = Some ''node_classification'' then node_loss env else link_loss env)
               epoch loss_fn model graph (store s)"
  let ?scores = "\<lambda>store'. (if task = Some ''node_classification'' then node_scores env else link_scores env)
               epoch model graph store'"
  note eq = epoch_body_supported [OF sup, of env loss_fn model graph epoch s]
  from assms obtain loss where l: "?loss = Inr loss"
    unfolding eq by (cases ?loss) (simp_all add: snd_seq)
  from assms l obtain grads where b: "backward env epoch loss = Inr grads"
    unfolding eq by (cases "backward env epoch loss") (simp_all add: snd_seq)
  from assms l b obtain store' optimizer'
    where st: "step env epoch (optimizer s) grads model (store s) = Inr (store', optimizer')"
    unfolding eq by (cases "step env epoch (optimizer s) grads model (store s)") (auto simp: snd_seq)
  from assms l b st obtain val_score test_score
    where sc: "?scores store' = Inr (val_score, test_score)"
    unfolding eq by (cases "?scores store'") (auto simp: snd_seq)
  from l b st sc have tr: "fst (epoch_body env loss_fn model graph task epoch s) =
         [Call_loss epoch, Call_backward epoch, Call_step epoch, Call_scores epoch,
          Set_postfix (item env loss) val_score test_score]"
    unfolding eq by (simp add: fst_seq snd_seq)
  from assms l b st sc have res: "s' = (if val_score > best_val_score s
          then \<lparr>store = store', optimizer = optimizer',
                best_val_score = val_score, final_test_score = test_score\<rparr>
          else \<lparr>store = store', optimizer = optimizer',
                best_val_score = best_val_score s, final_test_score = final_test_score s\<rparr>)"
    unfolding eq by (simp add: snd_seq split: if_splits)
  from sup l b st sc tr res show ?thesis by blast
qed

lemma baseline_unsupported:
  assumes "task \<noteq> Some ''node_classification''" and "task \<noteq> Some ''link_prediction''"
    and "Adam env model = Inr optimizer0"
  shows "baseline env model graph task verbose st =
     ([Call_Adam], Inl (ValueError (str task @ '' must be one of node class. or link pred.'')))"
proof -
  have "[0..<200] = 0 # [Suc 0..<200]"
    by (rule upt_conv_Cons) simp
  with assms show ?thesis
    by (simp add: baseline_def Let_def prod_eq_iff fst_seq snd_seq epoch_body_unsupported)
qed

lemma seq_Inr_iff:
  "seq m k = (tr, Inr r) \<longleftrightarrow>
     (\<exists>tr1 v tr2. m = (tr1, Inr v) \<and> k v = (tr2, Inr r) \<and> tr = tr1 @ tr2)"
proof (cases m)
  case (Pair tr1 res)
  then show ?thesis
    by (cases res; cases "k (projr res)") (auto simp: seq_def)
qed

lemma seq_assoc: "seq (seq m k) k' = seq m (\<lambda>v. seq (k v) k')"
  by (cases m; cases "snd m") (auto simp: seq_def split: sum.splits)

lemma seq_ret: "seq (ret v) k = k v"
  by (simp add: seq_def ret_def)

lemma epochs_append:
  "epochs env loss_fn model graph task (es1 @ es2) s =
     seq (epochs env loss_fn model graph task es1 s)
       (\<lambda>s1. epochs env loss_fn model graph task es2 s1)"
proof (induction es1 arbitrary: s)
  case Nil
  show ?case by (simp add: seq_ret)
next
  case (Cons e es1)
  show ?case
    unfolding append_Cons epochs.simps seq_assoc
    by (rule arg_cong [where f = "seq (epoch_body env loss_fn model graph task e s)"])
      (rule ext, rule Cons.IH)
qed

lemma postfix_scores_append:
  "postfix_scores (xs @ ys) = postfix_scores xs @ postfix_scores ys"
  by (induction xs rule: postfix_scores.induct) simp_all

lemma load_state_dict_alias:
  assumes "\<And>n a. (n, a) \<in> set ps \<Longrightarrow> map_of sd n = Some a"
  shows "load_state_dict ps sd st = Inr st"
  using assms
proof (induction ps arbitrary: st)
  case Nil
  then show ?case by simp
next
  case (Cons p ps)
  obtain n a where p: "p = (n, a)" by (cases p)
  with Cons.prems have "map_of sd n = Some a" by simp
  moreover have "load_state_dict ps sd st = Inr st"
    by (rule Cons.IH) (simp add: Cons.prems)
  ultimately show ?case by (simp add: p)
qed

lemma load_state_dict_state_dict:
  assumes "distinct (map fst model)"
  shows "load_state_dict model (state_dict model) st = Inr st"
  using assms by (intro load_state_dict_alias) (simp add: state_dict_def)

lemma baseline_Inr:
  fixes env :: "('e, 'd, 't, 'o, 'l, 'g) torch" and tr :: "('d, 'm) event list"
  assumes "baseline env model graph task verbose st = (tr, Inr st')"
  shows "\<exists>optimizer0 tr_e s.
      Adam env model = Inr optimizer0
    \<and> epochs env (if task = Some ''link_prediction''
                   then binary_cross_entropy_with_logits else cross_entropy)
          model graph task [0..<200]
          \<lparr>store = st, optimizer = optimizer0, best_val_score = 0, final_test_score = 0\<rparr>
        = (tr_e, Inr s)
    \<and> load_state_dict model (state_dict model) (store s) = Inr st'
    \<and> tr = Call_Adam # tr_e @ [Print_final_test (final_test_score s)]"
proof -
  from assms obtain optimizer0 where a: "Adam env model = Inr optimizer0"
    by (cases "Adam env model") (auto simp: baseline_def Let_def seq_Inr_iff ext_def)
  let ?lf = "if task = Some ''link_prediction''
                   then binary_cross_entropy_with_logits else cross_entropy"
  let ?s0 = "\<lparr>store = st, optimizer = optimizer0, best_val_score = 0, final_test_score = 0\<rparr>"
  from assms a obtain tr_e s tr1a tr2b
    where e: "epochs env ?lf model graph task [0..<200] ?s0 = (tr_e, Inr s)"
      and ld: "(case load_state_dict model (state_dict model) (store s) of
             Inl msg \<Rightarrow> raise (RuntimeError msg)
           | Inr x \<Rightarrow> ret x) = (tr1a, (Inr st' :: 'e error + 't store))"
      and em: "emit (Print_final_test (final_test_score s)) = (tr2b, (Inr () :: 'e error + unit))"
      and tr0: "tr = Call_Adam # tr_e @ tr1a @ tr2b"
    by (auto simp: baseline_def Let_def seq_Inr_iff ext_def ret_def)
  from ld have l: "load_state_dict model (state_dict model) (store s) = Inr st'"
    and "tr1a = []"
    by (cases "load_state_dict model (state_dict model) (store s)";
        simp add: raise_def ret_def)+
  moreover from em have "tr2b = [Print_final_test (final_test_score s)]"
    by (simp add: emit_def)
  ultimately have tr: "tr = Call_Adam # tr_e @ [Print_final_test (final_test_score s)]"
    using tr0 by simp
  with a e l tr show ?thesis by blast
qed

lemma epoch_body_example:
  "snd (epoch_body example_torch loss_fn [(''weight'', 0)] graph (Some ''node_classification'') e s) =
     Inr (if (if e = 1 then 7 / 10 else 1 / 2) > best_val_score s
          then \<lparr>store = (store s)(0 := store s 0 + 1), optimizer = (),
                best_val_score = (if e = 1 then 7 / 10 else 1 / 2),
                final_test_score = (if e = 1 then 3 / 5 else 9 / 10)\<rparr>
          else \<lparr>store = (store s)(0 := store s 0 + 1), optimizer = (),
                best_val_score = best_val_score s, final_test_score = final_test_score s\<rparr>)"
proof -
  have "(\<lambda>a. if a = 0 then store s a + 1 else store s a) = (store s)(0 := store s 0 + 1)"
    by (rule ext) simp
  then show ?thesis
    by (simp add: epoch_body_def example_torch_def snd_seq)
qed

lemma epochs_example_tail:
  assumes "1 \<notin> set es" and "1 / 2 \<le> best_val_score s"
  shows "snd (epochs example_torch loss_fn [(''weight'', 0)] graph (Some ''node_classification'') es s) =
     Inr \<lparr>store = (store s)(0 := store s 0 + int (length es)), optimizer = (),
          best_val_score = best_val_score s, final_test_score = final_test_score s\<rparr>"
  using assms
proof (induction es arbitrary: s)
  case Nil
  then show ?case by simp
next
  case (Cons e es)
  let ?s1 = "\<lparr>store = (store s)(0 := store s 0 + 1), optimizer = (),
                best_val_score = best_val_score s, final_test_score = final_test_score s\<rparr>"
  from Cons.prems have e: "e \<noteq> 1" and rest: "1 \<notin> set es" by auto
  from Cons.prems have "1 / 2 \<le> best_val_score ?s1" by simp
  from Cons.IH [OF rest this] Cons.prems e show ?case
    by (simp add: snd_seq epoch_body_example fun_eq_iff)
qed

lemma epochs_example:
  "snd (epochs example_torch loss_fn [(''weight'', 0)] graph (Some ''node_classification'') [0..<200]
       \<lparr>store = (\<lambda>a. 0), optimizer = (), best_val_score = 0, final_test_score = 0\<rparr>) =
     Inr \<lparr>store = (\<lambda>a. 0)(0 := 200), optimizer = (),
          best_val_score = 7 / 10, final_test_score = 3 / 5\<rparr>"
proof -
  have "[0..<200] = 0 # [Suc 0..<200]"
    by (rule upt_conv_Cons) simp
  moreover have "[Suc 0..<200] = Suc 0 # [Suc (Suc 0)..<200]"
    by (rule upt_conv_Cons) simp
  ultimately have l: "[0..<200] = 0 # Suc 0 # [Suc (Suc 0)..<200]"
    by simp
  have "(1::nat) \<notin> set [Suc (Suc 0)..<200]" by simp
  from epochs_example_tail [OF this, of
      "\<lparr>store = (\<lambda>a. 0)(0 := 2), optimizer = (), best_val_score = 7 / 10, final_test_score = 3 / 5\<rparr>"
      loss_fn graph]
  show ?thesis
    unfolding l by (simp add: snd_seq epoch_body_example)
qed

section \<open>Tracking the best validation score\<close>

lemma record_epochs_snoc:
  "record_epochs (vals @ [v]) =
     record_epochs vals @ (if \<forall>j<length vals. vals ! j < v then [length vals] else [])"
proof -
  have old: "filter (\<lambda>k. list_all (\<lambda>j. (vals @ [v]) ! j < (vals @ [v]) ! k) [0..<k]) [0..<length vals]
      = filter (\<lambda>k. list_all (\<lambda>j. vals ! j < vals ! k) [0..<k]) [0..<length vals]"
    by (rule filter_cong) (auto simp: list_all_iff nth_append)
  have new: "list_all (\<lambda>j. (vals @ [v]) ! j < v) [0..<length vals]
      \<longleftrightarrow> (\<forall>j<length vals. vals ! j < v)"
    unfolding list_all_iff by (auto simp: nth_append)
  show ?thesis
    unfolding record_epochs_def by (simp add: old new)
qed

lemma record_epochs_bound: "k \<in> set (record_epochs vals) \<Longrightarrow> k < length vals"
  by (simp add: record_epochs_def)

lemma record_epochs_nonempty: "vals \<noteq> [] \<Longrightarrow> record_epochs vals \<noteq> []"
proof -
  assume "vals \<noteq> []"
  then have "0 \<in> set (record_epochs vals)"
    by (simp add: record_epochs_def)
  then show ?thesis by auto
qed

lemma last_record_epochs_bound:
  assumes "vals \<noteq> []"
  shows "last (record_epochs vals) < length vals"
  using record_epochs_bound [of "last (record_epochs vals)" vals]
    record_epochs_nonempty [OF assms] last_in_set by blast

lemma best_val_score_tracking:
  fixes xs :: "(real \<times> real) list"
  shows "foldl (\<lambda>bf vt. if fst vt > fst bf then vt else bf) (0, 0) xs =
     (Max (insert 0 (set (map fst xs))),
      claimed_final_test (map fst xs) (map snd xs))"
proof (induction xs rule: rev_induct)
  case Nil
  show ?case by (simp add: claimed_final_test_def)
next
  case (snoc p xs)
  obtain v t where p: "p = (v, t)" by (cases p)
  let ?vals = "map fst xs" and ?tests = "map snd xs"
  define M where "M = Max (insert 0 (set ?vals))"
  define F where "F = claimed_final_test ?vals ?tests"
  have fin: "finite (insert 0 (set ?vals))" by simp
  have Mge: "\<And>x. x \<in> set ?vals \<Longrightarrow> x \<le> M" by (simp add: M_def Max_ge)
  have M0: "0 \<le> M" by (simp add: M_def Max_ge)
  have Min: "M \<in> insert 0 (set ?vals)"
    unfolding M_def by (rule Max_in) simp_all
  have "insert 0 (set (map fst (xs @ [p]))) = insert v (insert 0 (set ?vals))"
    by (auto simp: p)
  then have Mmax: "Max (insert 0 (set (map fst (xs @ [p])))) = max v M"
    unfolding M_def using Max_insert [OF fin, of v] by simp
  from snoc.IH have IH: "foldl (\<lambda>bf vt. if fst vt > fst bf then vt else bf) (0, 0) xs = (M, F)"
    by (simp add: M_def F_def)
  have step: "foldl (\<lambda>bf vt. if fst vt > fst bf then vt else bf) (0, 0) (xs @ [p]) =
      (if v > M then (v, t) else (M, F))"
    by (simp add: IH p)
  have final: "claimed_final_test (map fst (xs @ [p])) (map snd (xs @ [p])) =
      (if v > M then t else F)"
  proof (cases "v > M")
    case True
    then have all: "\<forall>j<length ?vals. ?vals ! j < v"
      using Mge by (metis le_less_trans nth_mem)
    from True M0 have pos: "v > 0" by linarith
    have "record_epochs (?vals @ [v]) = record_epochs ?vals @ [length ?vals]"
      using all by (simp add: record_epochs_snoc)
    then have "claimed_final_test (map fst (xs @ [p])) (map snd (xs @ [p])) = t"
      using pos by (simp add: claimed_final_test_def p nth_append)
    with True show ?thesis by simp
  next
    case False
    then have le: "v \<le> M" by simp
    have "claimed_final_test (map fst (xs @ [p])) (map snd (xs @ [p])) = F"
    proof (cases "list_ex (\<lambda>x. x > 0) ?vals")
      case True
      then have ne: "?vals \<noteq> []" by auto
      from True obtain x where "x \<in> set ?vals" and "x > 0" by (auto simp: list_ex_iff)
      then have "M > 0" using Mge [of x] by linarith
      with Min have "M \<in> set ?vals" by auto
      then obtain j where "j < length ?vals" and "?vals ! j = M"
        by (auto simp: in_set_conv_nth)
      with le have "\<not> (\<forall>j<length ?vals. ?vals ! j < v)" by force
      then have r: "record_epochs (?vals @ [v]) = record_epochs ?vals"
        by (simp add: record_epochs_snoc)
      from last_record_epochs_bound [OF ne] have "last (record_epochs ?vals) < length ?tests"
        by simp
      with True r show ?thesis
        by (simp add: claimed_final_test_def F_def p nth_append)
    next
      case False
      then have "\<And>x. x \<in> set ?vals \<Longrightarrow> x \<le> 0" by (force simp: list_ex_iff)
      with Min have "M \<le> 0" by auto
      with le have "v \<le> 0" by linarith
      with False show ?thesis
        by (simp add: claimed_final_test_def F_def p)
    qed
    with False show ?thesis by simp
  qed
  have "max v M = (if v > M then v else M)" by (simp add: max_def)
  with step final Mmax show ?case by simp
qed

lemma epoch_body_Inr_pair:
  fixes env :: "('e, 'd, 't, 'o, 'l, 'g) torch" and tr :: "('d, 'm) event list"
  assumes "epoch_body env loss_fn model graph task epoch s = (tr, Inr s')"
  shows "\<exists>v t. postfix_scores tr = [(v, t)]
    \<and> best_val_score s' = (if v > best_val_score s then v else best_val_score s)
    \<and> final_test_score s' = (if v > best_val_score s then t else final_test_score s)"
proof -
  from assms have "snd (epoch_body env loss_fn model graph task epoch s
      :: ('d, 'm, 'e, ('t, 'o) loop_state) run) = Inr s'"
    by simp
  from epoch_body_Inr [OF this] obtain loss store' optimizer' v t
    where tr': "fst (epoch_body env loss_fn model graph task epoch s
          :: ('d, 'm, 'e, ('t, 'o) loop_state) run) =
         [Call_loss epoch, Call_backward epoch, Call_step epoch, Call_scores epoch,
          Set_postfix (item env loss) v t]"
      and s': "s' = (if v > best_val_score s
          then \<lparr>store = store', optimizer = optimizer',
                best_val_score = v, final_test_score = t\<rparr>
          else \<lparr>store = store', optimizer = optimizer',
                best_val_score = best_val_score s, final_test_score = final_test_score s\<rparr>)"
    by blast
  from assms have "tr = fst (epoch_body env loss_fn model graph task epoch s
          :: ('d, 'm, 'e, ('t, 'o) loop_state) run)"
    by simp
  then have sc: "postfix_scores tr = [(v, t)]"
    unfolding tr' by simp
  show ?thesis
  proof (cases "v > best_val_score s")
    case True
    with s' sc show ?thesis by simp
  next
    case False
    with s' sc show ?thesis by simp
  qed
qed

lemma epochs_scores:
  fixes env :: "('e, 'd, 't, 'o, 'l, 'g) torch" and tr :: "('d, 'm) event list"
  assumes "epochs env loss_fn model graph task es s = (tr, Inr s')"
  shows "length (postfix_scores tr) = length es
    \<and> foldl (\<lambda>bf vt. if fst vt > fst bf then vt else bf)
          (best_val_score s, final_test_score s) (postfix_scores tr)
        = (best_val_score s', final_test_score s')"
  using assms
proof (induction es arbitrary: s tr)
  case Nil
  then have "tr = []" and "s' = s" by (simp_all add: ret_def)
  then show ?case by simp
next
  case (Cons e es)
  let ?upd = "\<lambda>(bf :: real \<times> real) (vt :: real \<times> real). if fst vt > fst bf then vt else bf"
  from Cons.prems have "seq (epoch_body env loss_fn model graph task e s)
       (\<lambda>s'. epochs env loss_fn model graph task es s') = (tr, Inr s')"
    by simp
  then obtain tr1 s1 tr2
    where b: "epoch_body env loss_fn model graph task e s = (tr1, Inr s1)"
      and r: "epochs env loss_fn model graph task es s1 = (tr2, Inr s')"
      and tr: "tr = tr1 @ tr2"
    unfolding seq_Inr_iff by blast
  from epoch_body_Inr_pair [OF b] obtain v t where sc: "postfix_scores tr1 = [(v, t)]"
    and bs: "best_val_score s1 = (if v > best_val_score s then v else best_val_score s)"
    and fs: "final_test_score s1 = (if v > best_val_score s then t else final_test_score s)"
    by (elim exE conjE) (rule that)
  note len = Cons.IH [OF r, THEN conjunct1]
  note IH = Cons.IH [OF r, THEN conjunct2]
  have ptr: "postfix_scores tr = (v, t) # postfix_scores tr2"
    unfolding tr postfix_scores_append sc by simp
  have one: "?upd (best_val_score s, final_test_score s) (v, t)
      = (best_val_score s1, final_test_score s1)"
    unfolding bs fs by simp
  have "foldl ?upd (best_val_score s, final_test_score s) (postfix_scores tr)
      = foldl ?upd (?upd (best_val_score s, final_test_score s) (v, t)) (postfix_scores tr2)"
    unfolding ptr by (rule foldl_Cons)
  also have "\<dots> = (best_val_score s', final_test_score s')"
    unfolding one by (rule IH)
  finally have fold: "foldl ?upd (best_val_score s, final_test_score s) (postfix_scores tr)
      = (best_val_score s', final_test_score s')" .
  have "length (postfix_scores tr) = length (e # es)"
    unfolding ptr using len by simp
  then show ?case
    using fold by (rule conjI)
qed

lemma epochs_best_val_score_mono:
  fixes env :: "('e, 'd, 't, 'o, 'l, 'g) torch" and tr :: "('d, 'm) event list"
  assumes "epochs env loss_fn model graph task es s = (tr, Inr s')"
  shows "best_val_score s \<le> best_val_score s'"
  using assms
proof (induction es arbitrary: s tr)
  case Nil
  then have "s' = s" by (simp add: ret_def)
  then show ?case by simp
next
  case (Cons e es)
  from Cons.prems have "seq (epoch_body env loss_fn model graph task e s)
       (\<lambda>s'. epochs env loss_fn model graph task es s') = (tr, Inr s')"
    by simp
  then obtain tr1 s1 tr2
    where b: "epoch_body env loss_fn model graph task e s = (tr1, Inr s1)"
      and r: "epochs env loss_fn model graph task es s1 = (tr2, Inr s')"
      and tr: "tr = tr1 @ tr2"
    unfolding seq_Inr_iff by blast
  from epoch_body_Inr_pair [OF b] obtain v t
    where bs: "best_val_score s1 = (if v > best_val_score s then v else best_val_score s)"
    by (elim exE conjE) (rule that)
  have "best_val_score s \<le> best_val_score s1"
    unfolding bs by simp
  also have "\<dots> \<le> best_val_score s'"
    by (rule Cons.IH [OF r])
  finally show ?case .
qed

lemma epochs_split:
  fixes env :: "('e, 'd, 't, 'o, 'l, 'g) torch" and tr :: "('d, 'm) event list"
  assumes "epochs env loss_fn model graph task [i..<n] s = (tr, Inr s')"
    and "i \<le> k" and "k \<le> n"
  shows "\<exists>tr1 s1 tr2.
       epochs env loss_fn model graph task [i..<k] s = (tr1 :: ('d, 'm) event list, Inr s1)
     \<and> epochs env loss_fn model graph task [k..<n] s1 = (tr2 :: ('d, 'm) event list, Inr s')
     \<and> tr = tr1 @ tr2"
proof -
  from assms(2,3) have "[i..<n] = [i..<k] @ [k..<n]"
    by (metis le_Suc_ex upt_add_eq_append)
  with assms(1) have "seq (epochs env loss_fn model graph task [i..<k] s)
       (\<lambda>s1. epochs env loss_fn model graph task [k..<n] s1) = (tr, Inr s')"
    by (simp add: epochs_append)
  then show ?thesis
    unfolding seq_Inr_iff by blast
qed

section \<open>Exceptions of the framework\<close>

lemma main_raises_parse_args:
  "parse_args env parser = Inl e \<Longrightarrow> snd (main env) = Inl (External e)"
  by (simp add: main_def snd_seq)

lemma main_raises_Planetoid:
  "parse_args env parser = Inr args \<Longrightarrow>
   Planetoid env (''tmp/'' @ args_dataset args) (args_dataset args) = Inl e \<Longrightarrow>
   snd (main env) = Inl (External e)"
  by (simp add: main_def snd_seq)

lemma main_raises_to_device:
  "parse_args env parser = Inr args \<Longrightarrow>
   Planetoid env (''tmp/'' @ args_dataset args) (args_dataset args) = Inr ds \<Longrightarrow>
   first_to_device env ds = Inl e \<Longrightarrow>
   snd (main env) = Inl (External e)"
  by (simp add: main_def snd_seq)

lemma main_raises_negative_sampling:
  "parse_args env parser = Inr args \<Longrightarrow>
   Planetoid env (''tmp/'' @ args_dataset args) (args_dataset args) = Inr ds \<Longrightarrow>
   first_to_device env ds = Inr d0 \<Longrightarrow>
   args_task args = Some ''link_prediction'' \<Longrightarrow>
   negative_sampling env (edge_index d0) = Inl e \<Longrightarrow>
   snd (main env) = Inl (External e)"
  by (simp add: main_def snd_seq generate_edge_data_def)

lemma build_gnn_selected:
  assumes "(lower (args_model args) = ''gcn'' \<and> a = GCN)
     \<or> (lower (args_model args) = ''gin'' \<and> a = GIN)
     \<or> (lower (args_model args) = ''gat'' \<and> a = GAT)"
  shows "build_gnn env args ds =
     seq (ext (Call_gnn a (gnn_kwargs_of env ds)) (gnn_constructor env a (gnn_kwargs_of env ds)))
       (\<lambda>m. ext Call_module_to (module_to env m))"
  using assms by (elim disjE conjE) (simp_all add: build_gnn_def)

lemma main_raises_gnn_constructor:
  assumes "reaches_model_construction env args ds d"
    and "(lower (args_model args) = ''gcn'' \<and> a = GCN)
     \<or> (lower (args_model args) = ''gin'' \<and> a = GIN)
     \<or> (lower (args_model args) = ''gat'' \<and> a = GAT)"
    and "gnn_constructor env a (gnn_kwargs_of env ds) = Inl e"
  shows "snd (main env) = Inl (External e)"
  unfolding snd_main_reaches [OF assms(1)] build_gnn_selected [OF assms(2)]
  using assms(3) by (simp add: snd_seq)

lemma main_raises_module_to:
  assumes "reaches_model_construction env args ds d"
    and "(lower (args_model args) = ''gcn'' \<and> a = GCN)
     \<or> (lower (args_model args) = ''gin'' \<and> a = GIN)
     \<or> (lower (args_model args) = ''gat'' \<and> a = GAT)"
    and "gnn_constructor env a (gnn_kwargs_of env ds) = Inr m"
    and "module_to env m = Inl e"
  shows "snd (main env) = Inl (External e)"
  unfolding snd_main_reaches [OF assms(1)] build_gnn_selected [OF assms(2)]
  using assms(3,4) by (simp add: snd_seq)

lemma main_raises_GLTSearch:
  assumes "reaches_model_construction env args ds d"
    and "snd (build_gnn env args ds) = Inr g"
    and "GLTSearch env (search_kwargs args
            (if args_task args = Some ''link_prediction''
             then LinkPredictor (Framework g) else Framework g) d) = Inl e"
  shows "snd (main env) = Inl (External e)"
  unfolding snd_main_reaches [OF assms(1)]
  using assms(2,3) by simp

lemma main_raises_prune:
  assumes "reaches_model_construction env args ds d"
    and "snd (build_gnn env args ds) = Inr g"
    and "GLTSearch env (search_kwargs args
            (if args_task args = Some ''link_prediction''
             then LinkPredictor (Framework g) else Framework g) d) = Inr trainer"
    and "prune env trainer = Inl e"
  shows "snd (main env) = Inl (External e)"
  unfolding snd_main_reaches [OF assms(1)]
  using assms(2,3,4) by simp

subsection \<open>In the training loop\<close>

lemma baseline_raises_Adam:
  "Adam env model = Inl e \<Longrightarrow>
   snd (baseline env model graph task verbose st) = Inl (External e)"
  by (simp add: baseline_def Let_def snd_seq)

lemma epoch_body_raises_loss:
  assumes "task = Some ''node_classification'' \<or> task = Some ''link_prediction''"
    and "(if task = Some ''node_classification'' then node_loss env else link_loss env)
            epoch loss_fn model graph (store s) = Inl e"
  shows "snd (epoch_body env loss_fn model graph task epoch s) = Inl (External e)"
  unfolding epoch_body_supported [OF assms(1)]
  using assms(2) by (simp add: snd_seq)

lemma epoch_body_raises_backward:
  assumes "task = Some ''node_classification'' \<or> task = Some ''link_prediction''"
    and "(if task = Some ''node_classification'' then node_loss env else link_loss env)
            epoch loss_fn model graph (store s) = Inr loss"
    and "backward env epoch loss = Inl e"
  shows "snd (epoch_body env loss_fn model graph task epoch s) = Inl (External e)"
  unfolding epoch_body_supported [OF assms(1)]
  using assms(2,3) by (simp add: snd_seq)

lemma epoch_body_raises_step:
  assumes "task = Some ''node_classification'' \<or> task = Some ''link_prediction''"
    and "(if task = Some ''node_classification'' then node_loss env else link_loss env)
            epoch loss_fn model graph (store s) = Inr loss"
    and "backward env epoch loss = Inr grads"
    and "step env epoch (optimizer s) grads model (store s) = Inl e"
  shows "snd (epoch_body env loss_fn model graph task epoch s) = Inl (External e)"
  unfolding epoch_body_supported [OF assms(1)]
  using assms(2,3,4) by (simp add: snd_seq)

lemma epoch_body_raises_scores:
  assumes "task = Some ''node_classification'' \<or> task = Some ''link_prediction''"
    and "(if task = Some ''node_classification'' then node_loss env else link_loss env)
            epoch loss_fn model graph (store s) = Inr loss"
    and "backward env epoch loss = Inr grads"
    and "step env epoch (optimizer s) grads model (store s) = Inr (store', optimizer')"
    and "(if task = Some ''node_classification'' then node_scores env else link_scores env)
            epoch model graph store' = Inl e"
  shows "snd (epoch_body env loss_fn model graph task epoch s) = Inl (External e)"
  unfolding epoch_body_supported [OF assms(1)]
  using assms(2,3,4,5) by (simp add: snd_seq)

lemma epochs_raises_at:
  fixes env :: "('e, 'd, 't, 'o, 'l, 'g) torch" and trk :: "('d, 'm) event list"
  assumes "k < n"
    and "epochs env lf model graph task [0..<k] s0 = (trk, Inr sk)"
    and "snd (epoch_body env lf model graph task k sk
           :: ('d, 'm, 'e, ('t, 'o) loop_state) run) = Inl err"
  shows "snd (epochs env lf model graph task [0..<n] s0
           :: ('d, 'm, 'e, ('t, 'o) loop_state) run) = Inl err"
proof -
  from assms(1) have "[0..<k + (n - k)] = [0..<k] @ [k..<k + (n - k)]"
    by (intro upt_add_eq_append) simp
  with assms(1) have l1: "[0..<n] = [0..<k] @ [k..<n]"
    by simp
  from assms(1) have l2: "[k..<n] = k # [Suc k..<n]"
    by (rule upt_conv_Cons)
  have "snd (epochs env lf model graph task ([0..<k] @ [k..<n]) s0
      :: ('d, 'm, 'e, ('t, 'o) loop_state) run) =
      snd (epochs env lf model graph task [k..<n] sk
      :: ('d, 'm, 'e, ('t, 'o) loop_state) run)"
    unfolding epochs_append snd_seq assms(2) by simp
  also have "\<dots> = Inl err"
    unfolding l2 epochs.simps snd_seq assms(3) by simp
  finally show ?thesis
    unfolding l1 .
qed

lemma baseline_raises_in_epoch:
  fixes env :: "('e, 'd, 't, 'o, 'l, 'g) torch" and trk :: "('d, 'm) event list"
  assumes "Adam env model = Inr optimizer0"
    and "k < 200"
    and "epochs env (if task = Some ''link_prediction''
                     then binary_cross_entropy_with_logits else cross_entropy)
           model graph task [0..<k]
           \<lparr>store = st, optimizer = optimizer0, best_val_score = 0, final_test_score = 0\<rparr>
         = (trk, Inr sk)"
    and "snd (epoch_body env (if task = Some ''link_prediction''
                     then binary_cross_entropy_with_logits else cross_entropy)
           model graph task k sk :: ('d, 'm, 'e, ('t, 'o) loop_state) run) = Inl err"
  shows "snd (baseline env model graph task verbose st :: ('d, 'm, 'e, 't store) run) = Inl err"
proof -
  note e = epochs_raises_at [OF assms(2) assms(3) assms(4)]
  show ?thesis
    unfolding baseline_def Let_def snd_seq assms(1) snd_ext_Inr snd_ret sum.case e
    by simp
qed

lemma baseline_raises_loss:
  fixes env :: "('e, 'd, 't, 'o, 'l, 'g) torch" and trk :: "('d, 'm) event list"
  assumes "Adam env model = Inr optimizer0"
    and "k < 200"
    and "epochs env (if task = Some ''link_prediction''
            then binary_cross_entropy_with_logits else cross_entropy)
           model graph task [0..<k]
           \<lparr>store = st, optimizer = optimizer0, best_val_score = 0, final_test_score = 0\<rparr>
         = (trk, Inr sk)"
    and "task = Some ''node_classification'' \<or> task = Some ''link_prediction''"
    and "(if task = Some ''node_classification'' then node_loss env else link_loss env)
            k (if task = Some ''link_prediction''
            then binary_cross_entropy_with_logits else cross_entropy) model graph (store sk) = Inl e"
  shows "snd (baseline env model graph task verbose st :: ('d, 'm, 'e, 't store) run)
           = Inl (External e)"
  by (rule baseline_raises_in_epoch [OF assms(1,2,3)]) (rule epoch_body_raises_loss [OF assms(4,5)])

lemma baseline_raises_backward:
  fixes env :: "('e, 'd, 't, 'o, 'l, 'g) torch" and trk :: "('d, 'm) event list"
  assumes "Adam env model = Inr optimizer0"
    and "k < 200"
    and "epochs env (if task = Some ''link_prediction''
            then binary_cross_entropy_with_logits else cross_entropy)
           model graph task [0..<k]
           \<lparr>store = st, optimizer = optimizer0, best_val_score = 0, final_test_score = 0\<rparr>
         = (trk, Inr sk)"
    and "task = Some ''node_classification'' \<or> task = Some ''link_prediction''"
    and "(if task = Some ''node_classification'' then node_loss env else link_loss env)
            k (if task = Some ''link_prediction''
            then binary_cross_entropy_with_logits else cross_entropy) model graph (store sk) = Inr loss"
    and "backward env k loss = Inl e"
  shows "snd (baseline env model graph task verbose st :: ('d, 'm, 'e, 't store) run)
           = Inl (External e)"
  by (rule baseline_raises_in_epoch [OF assms(1,2,3)]) (rule epoch_body_raises_backward [OF assms(4,5,6)])

lemma baseline_raises_step:
  fixes env :: "('e, 'd, 't, 'o, 'l, 'g) torch" and trk :: "('d, 'm) event list"
  assumes "Adam env model = Inr optimizer0"
    and "k < 200"
    and "epochs env (if task = Some ''link_prediction''
            then binary_cross_entropy_with_logits else cross_entropy)
           model graph task [0..<k]
           \<lparr>store = st, optimizer = optimizer0, best_val_score = 0, final_test_score = 0\<rparr>
         = (trk, Inr sk)"
    and "task = Some ''node_classification'' \<or> task = Some ''link_prediction''"
    and "(if task = Some ''node_classification'' then node_loss env else link_loss env)
            k (if task = Some ''link_prediction''
            then binary_cross_entropy_with_logits else cross_entropy) model graph (store sk) = Inr loss"
    and "backward env k loss = Inr grads"
    and "step env k (optimizer sk) grads model (store sk) = Inl e"
  shows "snd (baseline env model graph task verbose st :: ('d, 'm, 'e, 't store) run)
           = Inl (External e)"
  by (rule baseline_raises_in_epoch [OF assms(1,2,3)]) (rule epoch_body_raises_step [OF assms(4,5,6,7)])

lemma baseline_raises_scores:
  fixes env :: "('e, 'd, 't, 'o, 'l, 'g) torch" and trk :: "('d, 'm) event list"
  assumes "Adam env model = Inr optimizer0"
    and "k < 200"
    and "epochs env (if task = Some ''link_prediction''
            then binary_cross_entropy_with_logits else cross_entropy)
           model graph task [0..<k]
           \<lparr>store = st, optimizer = optimizer0, best_val_score = 0, final_test_score = 0\<rparr>
         = (trk, Inr sk)"
    and "task = Some ''node_classification'' \<or> task = Some ''link_prediction''"
    and "(if task = Some ''node_classification'' then node_loss env else link_loss env)
            k (if task = Some ''link_prediction''
            then binary_cross_entropy_with_logits else cross_entropy) model graph (store sk) = Inr loss"
    and "backward env k loss = Inr grads"
    and "step env k (optimizer sk) grads model (store sk) = Inr (store', optimizer')"
    and "(if task = Some ''node_classification'' then node_scores env else link_scores env)
            k model graph store' = Inl e"
  shows "snd (baseline env model graph task verbose st :: ('d, 'm, 'e, 't store) run)
           = Inl (External e)"
  by (rule baseline_raises_in_epoch [OF assms(1,2,3)]) (rule epoch_body_raises_scores [OF assms(4,5,6,7,8)])

section \<open>The order of the main flow\<close>

lemma main_example_node_classification:
  "main (example_framework (example_args ''gcn'' (Some ''node_classification''))) =
     ([Call_parse_args, Call_Planetoid ''tmp/Cora'' ''Cora'', Print ''Cora'', Print ''gcn'',
       Call_to_device, Print_nodes 3, Print_edges 2,
       Call_gnn GCN \<lparr>kw_in_channels = 1433, kw_output_channels = 512,
                      kw_hidden_channels = 512, kw_num_layers = 2\<rparr>,
       Call_module_to,
       Call_GLTSearch
         \<lparr>kw_task = Some ''node_classification'', kw_module = Framework (),
          kw_graph = \<lparr>payload = (), edge_index = [(0, 1), (1, 0)], edges = None,
                       edge_labels = None\<rparr>,
          kw_lr = 0.008, kw_reg_graph = 0.001, kw_reg_model = 0.001,
          kw_prune_rate_graph = 0.05, kw_prune_rate_model = 0.8,
          kw_optim_args = [(''weight_decay'', 0.00008)], kw_seed = 1234,
          kw_verbose = False, kw_ignore_keys = [''eps''],
          kw_max_train_epochs = 200, kw_loss_fn = cross_entropy\<rparr>,
       Call_prune],
      Inr ())"
  by (simp add: prod_eq_iff main_def build_gnn_def gnn_kwargs_of_def search_kwargs_def
      hidden_channels_def example_framework_def example_args_def lower_gcn fst_seq snd_seq)

text \<open>
  C1, as stated, fails. In this run (model gcn, task node classification, every framework
  call succeeding) the script returns what \<^verbatim>\<open>prune()\<close> returns, the trace goes from the model's
  move to the device straight to the construction of \<^verbatim>\<open>GLTSearch\<close> and to \<^verbatim>\<open>prune()\<close>, and
  no event of \<open>baseline\<close> occurs anywhere in it: no baseline training comes before the
  pruning search.
\<close>

theorem main_skips_baseline:
  "snd (main (example_framework (example_args ''gcn'' (Some ''node_classification'')))) = Inr ()
   \<and> drop 8 (fst (main (example_framework (example_args ''gcn'' (Some ''node_classification'')))))
       = [Call_module_to,
          Call_GLTSearch (search_kwargs (example_args ''gcn'' (Some ''node_classification''))
             (Framework ()) example_graph),
          Call_prune]
   \<and> \<not> list_ex baseline_event
         (fst (main (example_framework (example_args ''gcn'' (Some ''node_classification'')))))"
  unfolding main_example_node_classification
  by (simp add: baseline_event_def search_kwargs_def example_args_def example_graph_def)

text \<open>
  C1, amended. Every call of \<open>baseline\<close> leaves events of its own in the trace (the first
  is the construction of the optimizer), and the trace of the main flow never holds one:
  the call of \<open>baseline\<close> on line 152 is commented out, so no baseline training is
  performed. A run of the main flow that returns made exactly these steps, in this order:
  parse the arguments, load the Planetoid dataset, print the dataset and model names, move
  the graph to the device, generate the edge data (for link prediction only), print the
  node and edge counts, construct the model and move it to the device, construct
  \<^verbatim>\<open>GLTSearch\<close> on the model (wrapped in \<open>LinkPredictor\<close> for link prediction only), and call
  \<^verbatim>\<open>prune()\<close>.
\<close>



theorem main_flow:
  "list_ex baseline_event (fst (baseline tenv model graph task verbose st))
   \<and> \<not> list_ex baseline_event (fst (main env))
   \<and> (snd (main env) = Inr r \<longrightarrow>
        (\<exists>args ds d a g.
           parse_args env parser = Inr args \<and>
           fst (main env) =
             [Call_parse_args,
              Call_Planetoid (''tmp/'' @ args_dataset args) (args_dataset args),
              Print (args_dataset args), Print (args_model args), Call_to_device]
             @ (if args_task args = Some ''link_prediction'' then [Call_generate_edge_data] else [])
             @ [Print_nodes (num_nodes env d), Print_edges (num_edges env d),
                Call_gnn a (gnn_kwargs_of env ds), Call_module_to,
                Call_GLTSearch (search_kwargs args
                  (if args_task args = Some ''link_prediction''
                   then LinkPredictor (Framework g) else Framework g) d),
                Call_prune]))"
proof (intro conjI impI)
  show "list_ex baseline_event (fst (baseline tenv model graph task verbose st))"
    by (simp add: baseline_def fst_seq baseline_event_def split: sum.splits)
  show "\<not> list_ex baseline_event (fst (main env))"
    by (rule no_baseline_event_main)
next
  assume "snd (main env) = Inr r"
  from main_returns [OF this] obtain args ds d g trainer
    where reach: "reaches_model_construction env args ds d"
      and g: "snd (build_gnn env args ds) = Inr g"
      and t: "GLTSearch env (search_kwargs args
                 (if args_task args = Some ''link_prediction''
                  then LinkPredictor (Framework g) else Framework g) d) = Inr trainer"
    by blast
  from g have m: "lower (args_model args) \<in> {''gcn'', ''gin'', ''gat''}"
    unfolding snd_build_gnn by (simp split: if_splits)
  let ?a = "if lower (args_model args) = ''gcn'' then GCN
            else if lower (args_model args) = ''gin'' then GIN else GAT"
  from g m have c: "\<exists>m. gnn_constructor env ?a (gnn_kwargs_of env ds) = Inr m"
    unfolding snd_build_gnn
    by (cases "gnn_constructor env ?a (gnn_kwargs_of env ds)") simp_all
  from reaches_model_constructionD [OF reach] have p: "parse_args env parser = Inr args"
    by blast
  have "fst (main env) =
             [Call_parse_args,
              Call_Planetoid (''tmp/'' @ args_dataset args) (args_dataset args),
              Print (args_dataset args), Print (args_model args), Call_to_device]
             @ (if args_task args = Some ''link_prediction'' then [Call_generate_edge_data] else [])
             @ [Print_nodes (num_nodes env d), Print_edges (num_edges env d),
                Call_gnn ?a (gnn_kwargs_of env ds), Call_module_to,
                Call_GLTSearch (search_kwargs args
                  (if args_task args = Some ''link_prediction''
                   then LinkPredictor (Framework g) else Framework g) d),
                Call_prune]"
    unfolding fst_main_reaches [OF reach] fst_build_gnn g
    using m c t by auto
  with p show "\<exists>args ds d a g.
           parse_args env parser = Inr args \<and>
           fst (main env) =
             [Call_parse_args,
              Call_Planetoid (''tmp/'' @ args_dataset args) (args_dataset args),
              Print (args_dataset args), Print (args_model args), Call_to_device]
             @ (if args_task args = Some ''link_prediction'' then [Call_generate_edge_data] else [])
             @ [Print_nodes (num_nodes env d), Print_edges (num_edges env d),
                Call_gnn a (gnn_kwargs_of env ds), Call_module_to,
                Call_GLTSearch (search_kwargs args
                  (if args_task args = Some ''link_prediction''
                   then LinkPredictor (Framework g) else Framework g) d),
                Call_prune]"
    by blast
qed

theorem main_flow_witness:
  "snd (main (example_framework (example_args ''gcn'' (Some ''node_classification'')))) = Inr ()
   \<and> (\<exists>args ds d a g.
         fst (main (example_framework (example_args ''gcn'' (Some ''node_classification'')))) =
             [Call_parse_args,
              Call_Planetoid (''tmp/'' @ args_dataset args) (args_dataset args),
              Print (args_dataset args), Print (args_model args), Call_to_device]
             @ (if args_task args = Some ''link_prediction'' then [Call_generate_edge_data] else [])
             @ [Print_nodes (num_nodes (example_framework (example_args ''gcn'' (Some ''node_classification''))) d),
                Print_edges (num_edges (example_framework (example_args ''gcn'' (Some ''node_classification''))) d),
                Call_gnn a (gnn_kwargs_of (example_framework (example_args ''gcn'' (Some ''node_classification''))) ds),
                Call_module_to,
                Call_GLTSearch (search_kwargs args
                  (if args_task args = Some ''link_prediction''
                   then LinkPredictor (Framework g) else Framework g) d),
                Call_prune])"
proof -
  have "snd (main (example_framework (example_args ''gcn'' (Some ''node_classification'')))) = Inr ()"
    by (simp add: main_example_node_classification)
  with main_flow [of example_torch "[(''weight'', 0)]" example_graph "Some ''node_classification''"
      False "\<lambda>a. 0" "example_framework (example_args ''gcn'' (Some ''node_classification''))" "()"]
  show ?thesis by blast
qed

section \<open>The model name\<close>

text \<open>
  C3. Whenever the run gets as far as the model construction (argument parsing, dataset
  loading, the move to the device and, for link prediction, the edge data generation raised
  nothing), the script raises \<^verbatim>\<open>ValueError("model must be one of gcn, gin, gat")\<close> if and
  only if the lowercase form of the model name is none of gcn, gin and gat: every other
  name raises it, and the three names never do.
\<close>

theorem model_name_error:
  assumes "reaches_model_construction env args ds d"
  shows "snd (main env) = Inl (ValueError ''model must be one of gcn, gin, gat'')
     \<longleftrightarrow> lower (args_model args) \<notin> {''gcn'', ''gin'', ''gat''}"
  unfolding main_ValueError_iff [OF assms]
  using build_gnn_bad_name [of args env ds]
    build_gnn_good_name [of args env ds "''model must be one of gcn, gin, gat''"]
  by blast

theorem model_name_error_witness:
  "reaches_model_construction (example_framework (example_args ''ResNet'' (Some ''node_classification'')))
     (example_args ''ResNet'' (Some ''node_classification'')) () example_graph
   \<and> lower ''ResNet'' = ''resnet''
   \<and> snd (main (example_framework (example_args ''ResNet'' (Some ''node_classification''))))
       = Inl (ValueError ''model must be one of gcn, gin, gat'')"
  using model_name_error [OF reaches_example [of "''ResNet''"]] reaches_example [of "''ResNet''"]
  by (simp add: example_args_def lower_resnet)

section \<open>The command-line interface\<close>

text \<open>
  C4. The options the script declares are exactly -d/--dataset (default Cora), -m/--model
  (default gcn), --reg_graph and --reg_model (floats, default 0.001), --prune_rate_graph
  (float, default 0.05), --prune_rate_model (float, default 0.8), --task (no default) and
  the switch -v/--verbose: a string is an option string of the parser if and only if it is
  one of these eleven, and each is declared with the default, type and action listed.
  (The help option that argparse adds by itself is not a declaration of the script.)
\<close>

theorem cli_flags:
  "(find_flag parser f \<noteq> None \<longleftrightarrow>
      f \<in> {''-d'', ''--dataset'', ''-m'', ''--model'', ''--reg_graph'', ''--reg_model'',
           ''--prune_rate_graph'', ''--prune_rate_model'', ''--task'', ''-v'', ''--verbose''})
   \<and> find_flag parser ''-d'' = find_flag parser ''--dataset''
   \<and> find_flag parser ''--dataset'' =
        Some \<lparr>name_or_flags = [''-d'', ''--dataset''], arg_default = Some (PyStr ''Cora''),
              arg_type = None, arg_action = None\<rparr>
   \<and> find_flag parser ''-m'' = find_flag parser ''--model''
   \<and> find_flag parser ''--model'' =
        Some \<lparr>name_or_flags = [''-m'', ''--model''], arg_default = Some (PyStr ''gcn''),
              arg_type = None, arg_action = None\<rparr>
   \<and> find_flag parser ''--reg_graph'' =
        Some \<lparr>name_or_flags = [''--reg_graph''], arg_default = Some (PyFloat 0.001),
              arg_type = Some Float, arg_action = None\<rparr>
   \<and> find_flag parser ''--reg_model'' =
        Some \<lparr>name_or_flags = [''--reg_model''], arg_default = Some (PyFloat 0.001),
              arg_type = Some Float, arg_action = None\<rparr>
   \<and> find_flag parser ''--prune_rate_graph'' =
        Some \<lparr>name_or_flags = [''--prune_rate_graph''], arg_default = Some (PyFloat 0.05),
              arg_type = Some Float, arg_action = None\<rparr>
   \<and> find_flag parser ''--prune_rate_model'' =
        Some \<lparr>name_or_flags = [''--prune_rate_model''], arg_default = Some (PyFloat 0.8),
              arg_type = Some Float, arg_action = None\<rparr>
   \<and> find_flag parser ''--task'' =
        Some \<lparr>name_or_flags = [''--task''], arg_default = None,
              arg_type = None, arg_action = None\<rparr>
   \<and> find_flag parser ''-v'' = find_flag parser ''--verbose''
   \<and> find_flag parser ''--verbose'' =
        Some \<lparr>name_or_flags = [''-v'', ''--verbose''], arg_default = None,
              arg_type = None, arg_action = Some Store_true\<rparr>
   \<and> length parser = 8
   \<and> distinct (flags parser)"
proof -
  have declared: "find_flag parser f \<noteq> None \<longleftrightarrow> f \<in> set (flags parser)"
    by (auto simp: find_flag_def flags_def find_None_iff)
  have all: "set (flags parser) =
      {''-d'', ''--dataset'', ''-m'', ''--model'', ''--reg_graph'', ''--reg_model'',
       ''--prune_rate_graph'', ''--prune_rate_model'', ''--task'', ''-v'', ''--verbose''}"
    by (simp add: flags_def parser_def)
  have each: "find_flag parser ''-d'' = find_flag parser ''--dataset''"
    "find_flag parser ''--dataset'' =
        Some \<lparr>name_or_flags = [''-d'', ''--dataset''], arg_default = Some (PyStr ''Cora''),
              arg_type = None, arg_action = None\<rparr>"
    "find_flag parser ''-m'' = find_flag parser ''--model''"
    "find_flag parser ''--model'' =
        Some \<lparr>name_or_flags = [''-m'', ''--model''], arg_default = Some (PyStr ''gcn''),
              arg_type = None, arg_action = None\<rparr>"
    "find_flag parser ''--reg_graph'' =
        Some \<lparr>name_or_flags = [''--reg_graph''], arg_default = Some (PyFloat 0.001),
              arg_type = Some Float, arg_action = None\<rparr>"
    "find_flag parser ''--reg_model'' =
        Some \<lparr>name_or_flags = [''--reg_model''], arg_default = Some (PyFloat 0.001),
              arg_type = Some Float, arg_action = None\<rparr>"
    "find_flag parser ''--prune_rate_graph'' =
        Some \<lparr>name_or_flags = [''--prune_rate_graph''], arg_default = Some (PyFloat 0.05),
              arg_type = Some Float, arg_action = None\<rparr>"
    "find_flag parser ''--prune_rate_model'' =
        Some \<lparr>name_or_flags = [''--prune_rate_model''], arg_default = Some (PyFloat 0.8),
              arg_type = Some Float, arg_action = None\<rparr>"
    "find_flag parser ''--task'' =
        Some \<lparr>name_or_flags = [''--task''], arg_default = None,
              arg_type = None, arg_action = None\<rparr>"
    "find_flag parser ''-v'' = find_flag parser ''--verbose''"
    "find_flag parser ''--verbose'' =
        Some \<lparr>name_or_flags = [''-v'', ''--verbose''], arg_default = None,
              arg_type = None, arg_action = Some Store_true\<rparr>"
    by (simp_all add: find_flag_def parser_def)
  have shape: "length parser = 8" "distinct (flags parser)"
    by (simp_all add: flags_def parser_def)
  from declared all each shape show ?thesis by simp
qed

section \<open>Model construction\<close>



section \<open>Adapting the model for link prediction\<close>


lemma main_example_link_prediction:
  "fst (main (example_framework (example_args ''gcn'' (Some ''link_prediction'')))) =
     [Call_parse_args, Call_Planetoid ''tmp/Cora'' ''Cora'', Print ''Cora'', Print ''gcn'',
      Call_to_device, Call_generate_edge_data, Print_nodes 3, Print_edges 2,
      Call_gnn GCN \<lparr>kw_in_channels = 1433, kw_output_channels = 512,
                     kw_hidden_channels = 512, kw_num_layers = 2\<rparr>,
      Call_module_to,
      Call_GLTSearch
        \<lparr>kw_task = Some ''link_prediction'', kw_module = LinkPredictor (Framework ()),
         kw_graph = \<lparr>payload = (), edge_index = [(0, 1), (1, 0)],
                      edges = Some [(0, 1), (1, 0), (0, 2)], edge_labels = Some [0, 1, 1]\<rparr>,
         kw_lr = 0.008, kw_reg_graph = 0.001, kw_reg_model = 0.001,
         kw_prune_rate_graph = 0.05, kw_prune_rate_model = 0.8,
         kw_optim_args = [(''weight_decay'', 0.00008)], kw_seed = 1234,
         kw_verbose = False, kw_ignore_keys = [''eps''],
         kw_max_train_epochs = 200, kw_loss_fn = binary_cross_entropy_with_logits\<rparr>,
      Call_prune]"
  by (simp add: main_def build_gnn_def gnn_kwargs_of_def search_kwargs_def
      generate_edge_data_def hidden_channels_def example_framework_def example_args_def
      lower_gcn fst_seq snd_seq)


section \<open>Exceptions of the framework are not handled\<close>



section \<open>The parameters after baseline\<close>

lemma baseline_returns_trained_store:
  fixes env :: "('e, 'd, 't, 'o, 'l, 'g) torch" and tr :: "('d, 'm) event list"
  assumes "distinct (map fst model)"
    and "baseline env model graph task verbose st = (tr, Inr st')"
  shows "\<exists>optimizer0 tr_e s.
      Adam env model = Inr optimizer0
    \<and> epochs env (if task = Some ''link_prediction''
                   then binary_cross_entropy_with_logits else cross_entropy)
          model graph task [0..<200]
          \<lparr>store = st, optimizer = optimizer0, best_val_score = 0, final_test_score = 0\<rparr>
        = (tr_e :: ('d, 'm) event list, Inr s)
    \<and> st' = store s"
proof -
  from baseline_Inr [OF assms(2)] obtain optimizer0 tr_e s
    where "Adam env model = Inr optimizer0"
      and "epochs env (if task = Some ''link_prediction''
                   then binary_cross_entropy_with_logits else cross_entropy)
          model graph task [0..<200]
          \<lparr>store = st, optimizer = optimizer0, best_val_score = 0, final_test_score = 0\<rparr>
        = (tr_e :: ('d, 'm) event list, Inr s)"
      and "load_state_dict model (state_dict model) (store s) = Inr st'"
    by blast
  moreover from this(3) have "st' = store s"
    by (simp add: load_state_dict_state_dict [OF assms(1)])
  ultimately show ?thesis by blast
qed

text \<open>
  C8 (the parameters after \<open>baseline\<close> equal those on entry). The model has one parameter,
  \<open>weight\<close>, at address 0, with the value 0 on entry, and every optimizer step adds one to
  it. \<open>baseline\<close> returns with the parameter at 200, not at 0: \<open>state_dict\<close> hands out the
  parameter tensor itself, not a copy, the 200 optimizer steps update it in place, and
  \<open>load_state_dict\<close> copies the tensor onto itself. (The lemma before says so for every
  model and framework: what \<open>baseline\<close> leaves is the store as the last epoch left it.)
\<close>

theorem baseline_keeps_trained_parameters:
  "snd (baseline example_torch [(''weight'', 0)] example_graph (Some ''node_classification'')
      False (\<lambda>a. 0)) = Inr ((\<lambda>a. 0)(0 := 200))"
proof -
  have "Adam example_torch [(''weight'', 0)] = Inr ()"
    by (simp add: example_torch_def)
  then show ?thesis
    by (simp add: baseline_def Let_def snd_seq epochs_example state_dict_def)
qed

section \<open>The final test performance\<close>

lemma baseline_example_run:
  fixes tr :: "(unit, 'm) event list"
  assumes "tr = fst (baseline example_torch [(''weight'', 0)] example_graph
      (Some ''node_classification'') False (\<lambda>a. 0) :: (unit, 'm, nat, int store) run)"
  shows "baseline example_torch [(''weight'', 0)] example_graph
      (Some ''node_classification'') False (\<lambda>a. 0) = (tr, Inr ((\<lambda>a. 0)(0 := 200)))"
proof -
  have "Adam example_torch [(''weight'', 0)] = Inr ()"
    by (simp add: example_torch_def)
  then have "snd (baseline example_torch [(''weight'', 0)] example_graph
      (Some ''node_classification'') False (\<lambda>a. 0) :: (unit, 'm, nat, int store) run)
      = Inr ((\<lambda>a. 0)(0 := 200))"
    by (simp add: baseline_def Let_def snd_seq epochs_example state_dict_def)
  with assms show ?thesis by (simp add: prod_eq_iff)
qed

text \<open>
  C9. Scores are compared as totally ordered numbers. When \<open>baseline\<close> returns, the
  progress bar got the scores of 200 epochs, and \<^verbatim>\<open>best_val_score\<close> never decreases: its
  value after \<open>j\<close> epochs is at most its value after \<open>k\<close> epochs, for all
  \<open>j \<le> k \<le> 200\<close>. The last thing \<open>baseline\<close> does is print the final test performance,
  and what it prints is the test score of the last epoch whose validation score strictly
  exceeded the validation score of every earlier epoch when some validation score exceeds
  0, and 0 when none does.
\<close>

theorem baseline_final_test_score:
  fixes env :: "('e, 'd, 't, 'o, 'l, 'g) torch" and tr :: "('d, 'm) event list"
  assumes "baseline env model graph task verbose st = (tr, Inr st')"
  shows "length (postfix_scores tr) = 200
    \<and> last tr = Print_final_test
         (claimed_final_test (map fst (postfix_scores tr)) (map snd (postfix_scores tr)))
    \<and> (\<exists>optimizer0. Adam env model = Inr optimizer0 \<and>
         (\<forall>j k. j \<le> k \<and> k \<le> 200 \<longrightarrow>
            (\<exists>trj sj trk sk.
               epochs env (if task = Some ''link_prediction''
                           then binary_cross_entropy_with_logits else cross_entropy)
                 model graph task [0..<j]
                 \<lparr>store = st, optimizer = optimizer0, best_val_score = 0, final_test_score = 0\<rparr>
                 = (trj :: ('d, 'm) event list, Inr sj)
             \<and> epochs env (if task = Some ''link_prediction''
                           then binary_cross_entropy_with_logits else cross_entropy)
                 model graph task [0..<k]
                 \<lparr>store = st, optimizer = optimizer0, best_val_score = 0, final_test_score = 0\<rparr>
                 = (trk :: ('d, 'm) event list, Inr sk)
             \<and> best_val_score sj \<le> best_val_score sk)))"
proof -
  let ?lf = "if task = Some ''link_prediction''
             then binary_cross_entropy_with_logits else cross_entropy"
  from baseline_Inr [OF assms] obtain optimizer0 tr_e s
    where a: "Adam env model = Inr optimizer0"
      and e: "epochs env ?lf model graph task [0..<200]
          \<lparr>store = st, optimizer = optimizer0, best_val_score = 0, final_test_score = 0\<rparr>
        = (tr_e, Inr s)"
      and tr: "tr = Call_Adam # tr_e @ [Print_final_test (final_test_score s)]"
    by (elim exE conjE) (rule that)
  let ?s0 = "\<lparr>store = st, optimizer = optimizer0, best_val_score = 0, final_test_score = 0\<rparr>"
  have sc: "postfix_scores tr = postfix_scores tr_e"
    unfolding tr by (simp add: postfix_scores_append)
  from epochs_scores [OF e] have len: "length (postfix_scores tr_e) = 200"
    and fold: "foldl (\<lambda>bf vt. if fst vt > fst bf then vt else bf) (0, 0) (postfix_scores tr_e)
        = (best_val_score s, final_test_score s)"
    by simp_all
  from fold have fin: "final_test_score s =
      claimed_final_test (map fst (postfix_scores tr_e)) (map snd (postfix_scores tr_e))"
    unfolding best_val_score_tracking by simp
  have l: "last tr = Print_final_test (final_test_score s)"
    unfolding tr by simp
  have mono: "\<exists>trj sj trk sk.
       epochs env ?lf model graph task [0..<j] ?s0 = (trj :: ('d, 'm) event list, Inr sj)
     \<and> epochs env ?lf model graph task [0..<k] ?s0 = (trk :: ('d, 'm) event list, Inr sk)
     \<and> best_val_score sj \<le> best_val_score sk"
    if jk: "j \<le> k" "k \<le> 200" for j k
  proof -
    from epochs_split [OF e _ jk(2)] obtain trk sk
      where k: "epochs env ?lf model graph task [0..<k] ?s0 = (trk :: ('d, 'm) event list, Inr sk)"
      by auto
    from epochs_split [OF k _ jk(1)] obtain trj sj trr
      where j: "epochs env ?lf model graph task [0..<j] ?s0 = (trj :: ('d, 'm) event list, Inr sj)"
        and r: "epochs env ?lf model graph task [j..<k] sj = (trr :: ('d, 'm) event list, Inr sk)"
      by auto
    from epochs_best_val_score_mono [OF r] j k show ?thesis
      by (intro exI conjI)
  qed
  have c1: "length (postfix_scores tr) = 200"
    using len sc by simp
  have c2: "last tr = Print_final_test
         (claimed_final_test (map fst (postfix_scores tr)) (map snd (postfix_scores tr)))"
    using l fin sc by simp
  have c3: "\<forall>j k. j \<le> k \<and> k \<le> 200 \<longrightarrow>
      (\<exists>trj sj trk sk.
         epochs env ?lf model graph task [0..<j] ?s0 = (trj :: ('d, 'm) event list, Inr sj)
       \<and> epochs env ?lf model graph task [0..<k] ?s0 = (trk :: ('d, 'm) event list, Inr sk)
       \<and> best_val_score sj \<le> best_val_score sk)"
  proof (intro allI impI)
    fix j k :: nat
    assume "j \<le> k \<and> k \<le> 200"
    then have "j \<le> k" and "k \<le> 200" by simp_all
    then show "\<exists>trj sj trk sk.
         epochs env ?lf model graph task [0..<j] ?s0 = (trj :: ('d, 'm) event list, Inr sj)
       \<and> epochs env ?lf model graph task [0..<k] ?s0 = (trk :: ('d, 'm) event list, Inr sk)
       \<and> best_val_score sj \<le> best_val_score sk"
      by (rule mono)
  qed
  show ?thesis
    by (intro conjI exI [of _ optimizer0]) (fact c1, fact c2, fact a, fact c3)
qed

theorem baseline_final_test_score_witness:
  "snd (baseline example_torch [(''weight'', 0)] example_graph
        (Some ''node_classification'') False (\<lambda>a. 0) :: (unit, unit, nat, int store) run)
     = Inr ((\<lambda>a. 0)(0 := 200))
   \<and> length (postfix_scores (fst (baseline example_torch [(''weight'', 0)] example_graph
        (Some ''node_classification'') False (\<lambda>a. 0) :: (unit, unit, nat, int store) run))) = 200
   \<and> last (fst (baseline example_torch [(''weight'', 0)] example_graph
        (Some ''node_classification'') False (\<lambda>a. 0) :: (unit, unit, nat, int store) run))
       = Print_final_test (3 / 5)
   \<and> claimed_final_test
        (map fst (postfix_scores (fst (baseline example_torch [(''weight'', 0)] example_graph
           (Some ''node_classification'') False (\<lambda>a. 0) :: (unit, unit, nat, int store) run))))
        (map snd (postfix_scores (fst (baseline example_torch [(''weight'', 0)] example_graph
           (Some ''node_classification'') False (\<lambda>a. 0) :: (unit, unit, nat, int store) run))))
       = 3 / 5"
proof -
  define tr :: "(unit, unit) event list"
    where "tr = fst (baseline example_torch [(''weight'', 0)] example_graph
        (Some ''node_classification'') False (\<lambda>a. 0) :: (unit, unit, nat, int store) run)"
  have run: "baseline example_torch [(''weight'', 0)] example_graph
      (Some ''node_classification'') False (\<lambda>a. 0) = (tr, Inr ((\<lambda>a. 0)(0 := 200)))"
    by (rule baseline_example_run) (rule tr_def)
  from baseline_Inr [OF run] obtain tr_e s
    where e: "epochs example_torch cross_entropy [(''weight'', 0)] example_graph
          (Some ''node_classification'') [0..<200]
          \<lparr>store = (\<lambda>a. 0), optimizer = (), best_val_score = 0, final_test_score = 0\<rparr>
        = (tr_e, Inr s)"
      and t: "tr = Call_Adam # tr_e @ [Print_final_test (final_test_score s)]"
    by auto
  from e epochs_example [of cross_entropy example_graph]
  have "final_test_score s = 3 / 5"
    by (metis loop_state.select_convs(4) old.sum.inject(2) snd_conv)
  with t have printed: "last tr = Print_final_test (3 / 5)" by simp
  from baseline_final_test_score [OF run]
  have len: "length (postfix_scores tr) = 200"
    and claimed: "last tr = Print_final_test
         (claimed_final_test (map fst (postfix_scores tr)) (map snd (postfix_scores tr)))"
    by simp_all
  from printed claimed
  have "claimed_final_test (map fst (postfix_scores tr)) (map snd (postfix_scores tr)) = 3 / 5"
    by simp
  with len printed run show ?thesis
    unfolding tr_def [symmetric] by simp
qed

section \<open>Properties of generate_edge_data\<close>

lemma generate_edge_data_edges:
  "generate_edge_data ns g = Inr g' \<Longrightarrow>
     \<exists>neg. ns (edge_index g) = Inr neg \<and> edges g' = Some (edge_index g @ neg)
       \<and> edge_labels g' = Some (replicate (length neg) 0 @ replicate (length (edge_index g)) 1)"
  by (auto simp: generate_edge_data_def Let_def split: sum.splits)

lemma generate_edge_data_label_at:
  assumes "generate_edge_data ns g = Inr g'" and "ns (edge_index g) = Inr neg"
    and "k < length (edge_index g) + length neg"
  shows "the (edge_labels g') ! k = (if k < length neg then 0 else 1)"
  using assms
  by (auto simp: generate_edge_data_def Let_def nth_append split: sum.splits)

text \<open>
  C10 (alignment of \<^verbatim>\<open>edge_labels\<close> with \<^verbatim>\<open>edges\<close>). The graph has the two edges
  \<open>(0,1)\<close> and \<open>(1,0)\<close> and the sampler returns the one negative edge \<open>(0,2)\<close>. The
  \<^verbatim>\<open>edges\<close> tensor is the original edges followed by the negative one, and there is one
  label per column, but the labels are laid out negatives first: column 0, an original
  edge, is labelled 0, and column 2, the sampled negative edge, is labelled 1.
\<close>

theorem generate_edge_data_labels_misaligned:
  "generate_edge_data (\<lambda>ei. Inr [(0, 2)] :: unit + edge_tensor)
       \<lparr>payload = (), edge_index = [(0, 1), (1, 0)], edges = None, edge_labels = None\<rparr>
     = Inr \<lparr>payload = (), edge_index = [(0, 1), (1, 0)],
            edges = Some [(0, 1), (1, 0), (0, 2)], edge_labels = Some [0, 1, 1]\<rparr>"
  by (simp add: generate_edge_data_def)

end
